theory Spec2Isabelle
  imports Main
begin

section \<open>Configuration model (config.go)\<close>

text \<open>
  A Go \<open>error\<close> built by \<open>errors.New\<close> or returned by a library call is represented by its
  message. A run-time panic caused by dereferencing a nil pointer is a separate outcome:
  the function does not return at all.
\<close>

type_synonym error = string

datatype 'a outcome = Returns 'a | NilDereference

text \<open>
  \<open>optional.Field[bool]\<close>: a value that is either absent or present with a boolean.
\<close>

type_synonym 'a Field = "'a option"

definition Present :: "'a Field \<Rightarrow> bool" where
  "Present f = (f \<noteq> None)"

definition OrElse :: "'a Field \<Rightarrow> 'a \<Rightarrow> 'a" where
  "OrElse f d = (case f of None \<Rightarrow> d | Some v \<Rightarrow> v)"

record StdioMCPClientConfig =
  stdio_Command :: string
  stdio_Env :: "(string \<times> string) list"
  stdio_Args :: "string list"

record SSEMCPClientConfig =
  sse_URL :: string
  sse_Headers :: "(string \<times> string) list"

record StreamableMCPClientConfig =
  streamable_URL :: string
  streamable_Headers :: "(string \<times> string) list"
  streamable_Timeout :: int

type_synonym MCPClientType = string

definition MCPClientTypeStdio :: MCPClientType where
  "MCPClientTypeStdio = ''stdio''"

definition MCPClientTypeSSE :: MCPClientType where
  "MCPClientTypeSSE = ''sse''"

definition MCPClientTypeStreamable :: MCPClientType where
  "MCPClientTypeStreamable = ''streamable-http''"

type_synonym ToolFilterMode = string

definition ToolFilterModeAllow :: ToolFilterMode where
  "ToolFilterModeAllow = ''allow''"

definition ToolFilterModeBlock :: ToolFilterMode where
  "ToolFilterModeBlock = ''block''"

record ToolFilterConfig =
  Mode :: ToolFilterMode
  ToolList :: "string list"

text \<open>
  \<open>AuthTokens\<close> is a Go slice: \<open>None\<close> is the nil slice (the field was absent), \<open>Some []\<close>
  is a slice that is present and has length zero. \<open>ToolFilter\<close> is a pointer.
\<close>

record Options =
  PanicIfInvalid :: "bool Field"
  LogEnabled :: "bool Field"
  AuthTokens :: "string list option"
  ToolFilter :: "ToolFilterConfig option"

record MCPProxyConfig =
  BaseURL :: string
  Addr :: string
  ProxyName :: string
  Version :: string
  ProxyOptions :: "Options option"

record MCPClientConfig =
  TransportType :: MCPClientType
  Command :: string
  Args :: "string list"
  Env :: "(string \<times> string) list"
  URL :: string
  Headers :: "(string \<times> string) list"
  Timeout :: int
  ClientOptions :: "Options option"

text \<open>
  The dynamic type of the value \<open>parseMCPClientConfig\<close> returns as \<open>any\<close>.
\<close>

datatype ClientInfo =
  StdioInfo StdioMCPClientConfig
| SSEInfo SSEMCPClientConfig
| StreamableInfo StreamableMCPClientConfig

definition parseMCPClientConfig :: "MCPClientConfig \<Rightarrow> error + ClientInfo" where
  "parseMCPClientConfig conf =
     (if Command conf \<noteq> [] \<or> TransportType conf = MCPClientTypeStdio then
        (if Command conf = [] then Inl ''command is required for stdio transport''
         else Inr (StdioInfo \<lparr>stdio_Command = Command conf, stdio_Env = Env conf,
                              stdio_Args = Args conf\<rparr>))
      else if URL conf \<noteq> [] then
        (if TransportType conf = MCPClientTypeStreamable then
           Inr (StreamableInfo \<lparr>streamable_URL = URL conf, streamable_Headers = Headers conf,
                                streamable_Timeout = Timeout conf\<rparr>)
         else Inr (SSEInfo \<lparr>sse_URL = URL conf, sse_Headers = Headers conf\<rparr>))
      else Inl ''invalid server type'')"

text \<open>
  \<open>McpProxy\<close> is a pointer; \<open>McpServers\<close> is a Go map from backend name to a pointer to the
  backend's configuration, kept here as the list of its entries in the order the
  \<open>range\<close> loop visits them.
\<close>

record Config =
  McpProxy :: "MCPProxyConfig option"
  McpServers :: "(string \<times> MCPClientConfig option) list"

definition emptyOptions :: Options where
  "emptyOptions = \<lparr>PanicIfInvalid = None, LogEnabled = None, AuthTokens = None,
                    ToolFilter = None\<rparr>"

text \<open>The body of the \<open>range\<close> loop of \<open>load\<close>, for one non-nil backend configuration.\<close>

definition applyDefaults :: "Options \<Rightarrow> MCPClientConfig \<Rightarrow> MCPClientConfig" where
  "applyDefaults proxyOpts clientConfig =
     (let o0 = (case ClientOptions clientConfig of None \<Rightarrow> emptyOptions | Some opts \<Rightarrow> opts);
          o1 = (if AuthTokens o0 = None then o0\<lparr>AuthTokens := AuthTokens proxyOpts\<rparr> else o0);
          o2 = (if \<not> Present (PanicIfInvalid o1)
                then o1\<lparr>PanicIfInvalid := PanicIfInvalid proxyOpts\<rparr> else o1);
          o3 = (if \<not> Present (LogEnabled o2)
                then o2\<lparr>LogEnabled := LogEnabled proxyOpts\<rparr> else o2)
      in clientConfig\<lparr>ClientOptions := Some o3\<rparr>)"

text \<open>
  The loop itself. A nil entry of the map makes \<open>clientConfig.Options\<close> a nil dereference.
\<close>

fun loadServers :: "Options \<Rightarrow> (string \<times> MCPClientConfig option) list
    \<Rightarrow> (string \<times> MCPClientConfig option) list outcome" where
  "loadServers proxyOpts [] = Returns []"
| "loadServers proxyOpts ((name, None) # rest) = NilDereference"
| "loadServers proxyOpts ((name, Some clientConfig) # rest) =
     (case loadServers proxyOpts rest of
        NilDereference \<Rightarrow> NilDereference
      | Returns rest' \<Rightarrow> Returns ((name, Some (applyDefaults proxyOpts clientConfig)) # rest'))"

text \<open>
  \<open>load\<close>, from the result of \<open>confstore.Load\<close> on (an error or the parsed configuration).
\<close>

definition load :: "error + Config \<Rightarrow> (error + Config) outcome" where
  "load loaded =
     (case loaded of
        Inl err \<Rightarrow> Returns (Inl err)
      | Inr conf \<Rightarrow>
          (case McpProxy conf of
             None \<Rightarrow> Returns (Inl ''mcpProxy is required'')
           | Some proxy \<Rightarrow>
               (let proxyOpts = (case ProxyOptions proxy of None \<Rightarrow> emptyOptions
                                 | Some opts \<Rightarrow> opts)
                in case loadServers proxyOpts (McpServers conf) of
                     NilDereference \<Rightarrow> NilDereference
                   | Returns servers \<Rightarrow>
                       Returns (Inr (conf\<lparr>McpProxy := Some (proxy\<lparr>ProxyOptions := Some proxyOpts\<rparr>),
                                          McpServers := servers\<rparr>)))))"

section \<open>HTTP middleware and routing (http.go)\<close>

text \<open>
  What a handler does with a request is the sequence of effects it performs (log lines,
  responses written) and whether it finished or panicked. \<open>log.Printf\<close> is kept as its
  format string and arguments.
\<close>

datatype logarg = Str string | Num nat

type_synonym logline = "string \<times> logarg list"

definition Printf :: "string \<Rightarrow> logarg list \<Rightarrow> logline" where
  "Printf fmt args = (fmt, args)"

datatype event = Logged logline | HttpError string nat | Respond nat string

datatype completion = Finished | Panicked string

record Request =
  Method :: string
  URLPath :: string
  Header :: "(string \<times> string) list"

type_synonym effect = "event list \<times> completion"

type_synonym handler = "Request \<Rightarrow> effect"

type_synonym MiddlewareFunc = "handler \<Rightarrow> handler"

text \<open>\<open>Header.Get\<close>: the value stored under the key, or the empty string.\<close>

definition Header_Get :: "(string \<times> string) list \<Rightarrow> string \<Rightarrow> string" where
  "Header_Get h k = (case map_of h k of None \<Rightarrow> [] | Some v \<Rightarrow> v)"

text \<open>
  The functions of Go's \<open>strings\<close> package the code calls, on byte strings.
\<close>

definition HasPrefix :: "string \<Rightarrow> string \<Rightarrow> bool" where
  "HasPrefix s p = (length p \<le> length s \<and> take (length p) s = p)"

definition HasSuffix :: "string \<Rightarrow> string \<Rightarrow> bool" where
  "HasSuffix s x = (length x \<le> length s \<and> drop (length s - length x) s = x)"

definition TrimPrefix :: "string \<Rightarrow> string \<Rightarrow> string" where
  "TrimPrefix s p = (if HasPrefix s p then drop (length p) s else s)"

text \<open>
  \<open>strings.TrimSpace\<close> removes leading and trailing Unicode white space. On the bytes of a
  string these are the UTF-8 encodings of U+0009 to U+000D, U+0020, U+0085, U+00A0,
  U+1680, U+2000 to U+200A, U+2028, U+2029, U+202F, U+205F and U+3000. The fuel is the
  length of the string: every step removes at least one byte.
\<close>

definition whiteSpace :: "string list" where
  "whiteSpace =
     [[CHR 0x09], [CHR 0x0A], [CHR 0x0B], [CHR 0x0C], [CHR 0x0D], [CHR 0x20],
      [CHR 0xC2, CHR 0x85], [CHR 0xC2, CHR 0xA0],
      [CHR 0xE1, CHR 0x9A, CHR 0x80],
      [CHR 0xE2, CHR 0x80, CHR 0x80], [CHR 0xE2, CHR 0x80, CHR 0x81],
      [CHR 0xE2, CHR 0x80, CHR 0x82], [CHR 0xE2, CHR 0x80, CHR 0x83],
      [CHR 0xE2, CHR 0x80, CHR 0x84], [CHR 0xE2, CHR 0x80, CHR 0x85],
      [CHR 0xE2, CHR 0x80, CHR 0x86], [CHR 0xE2, CHR 0x80, CHR 0x87],
      [CHR 0xE2, CHR 0x80, CHR 0x88], [CHR 0xE2, CHR 0x80, CHR 0x89],
      [CHR 0xE2, CHR 0x80, CHR 0x8A],
      [CHR 0xE2, CHR 0x80, CHR 0xA8], [CHR 0xE2, CHR 0x80, CHR 0xA9],
      [CHR 0xE2, CHR 0x80, CHR 0xAF],
      [CHR 0xE2, CHR 0x81, CHR 0x9F],
      [CHR 0xE3, CHR 0x80, CHR 0x80]]"

fun trimLeft :: "nat \<Rightarrow> string \<Rightarrow> string" where
  "trimLeft 0 s = s"
| "trimLeft (Suc fuel) s =
     (case find (HasPrefix s) whiteSpace of
        None \<Rightarrow> s
      | Some sp \<Rightarrow> trimLeft fuel (drop (length sp) s))"

fun trimRight :: "nat \<Rightarrow> string \<Rightarrow> string" where
  "trimRight 0 s = s"
| "trimRight (Suc fuel) s =
     (case find (HasSuffix s) whiteSpace of
        None \<Rightarrow> s
      | Some sp \<Rightarrow> trimRight fuel (take (length s - length sp) s))"

definition TrimSpace :: "string \<Rightarrow> string" where
  "TrimSpace s = (let l = trimLeft (length s) s in trimRight (length l) l)"

text \<open>\<open>chainMiddleware\<close> of the proxy: the \<open>range\<close> loop applies the middlewares in list order.\<close>

definition chainMiddleware :: "handler \<Rightarrow> MiddlewareFunc list \<Rightarrow> handler" where
  "chainMiddleware h middlewares = foldl (\<lambda>h' mw. mw h') h middlewares"

text \<open>
  \<open>chainMiddleware\<close> of the adapter command (same name, same signature): its loop runs
  over the indices from the last one down to 0.
\<close>

definition adapter_chainMiddleware :: "handler \<Rightarrow> MiddlewareFunc list \<Rightarrow> handler" where
  "adapter_chainMiddleware h middlewares = foldr (\<lambda>mw h'. mw h') middlewares h"

definition unauthorized :: effect where
  "unauthorized = ([HttpError ''Unauthorized'' 401], Finished)"

definition newAuthMiddleware :: "string list \<Rightarrow> MiddlewareFunc" where
  "newAuthMiddleware tokens =
     (let tokenSet = set tokens in
      (\<lambda>next r.
         if length tokens \<noteq> 0 then
           (let token0 = Header_Get (Header r) ''Authorization'';
                token = TrimSpace (TrimPrefix token0 ''Bearer '')
            in if token = [] then unauthorized
               else if token \<notin> tokenSet then unauthorized
               else next r)
         else next r))"

text \<open>
  \<open>newAuthMiddleware\<close> of the adapter command (same name, same signature), which checks
  that the header starts with \<open>Bearer\<close> before it strips the prefix.
\<close>

definition adapter_newAuthMiddleware :: "string list \<Rightarrow> MiddlewareFunc" where
  "adapter_newAuthMiddleware tokens =
     (\<lambda>next r.
        if length tokens = 0 then next r
        else
          (let authHeader = Header_Get (Header r) ''Authorization''
           in if authHeader = [] then
                ([HttpError ''Authorization header required'' 401], Finished)
              else if \<not> HasPrefix authHeader ''Bearer '' then
                ([HttpError ''Bearer token required'' 401], Finished)
              else
                (let token = TrimPrefix authHeader ''Bearer ''
                 in if token \<notin> set tokens then ([HttpError ''Invalid token'' 401], Finished)
                    else next r)))"

definition loggerMiddleware :: "string \<Rightarrow> MiddlewareFunc" where
  "loggerMiddleware prefix =
     (\<lambda>next r.
        (case next r of
           (evs, c) \<Rightarrow>
             (Logged (Printf ''<%s> Request [%s] %s''
                        [Str prefix, Str (Method r), Str (URLPath r)]) # evs, c)))"

text \<open>
  The deferred \<open>recover\<close>: what the downstream handler did before it panicked stays, then
  the panic is logged and a 500 is written.
\<close>

definition recoverMiddleware :: "string \<Rightarrow> MiddlewareFunc" where
  "recoverMiddleware prefix =
     (\<lambda>next r.
        (case next r of
           (evs, Finished) \<Rightarrow> (evs, Finished)
         | (evs, Panicked err) \<Rightarrow>
             (evs @ [Logged (Printf ''<%s> Recovered from panic: %v'' [Str prefix, Str err]),
                     HttpError ''Internal Server Error'' 500], Finished)))"

text \<open>The elements of a slice; the nil slice has none.\<close>

definition elems :: "'a list option \<Rightarrow> 'a list" where
  "elems s = (case s of None \<Rightarrow> [] | Some xs \<Rightarrow> xs)"

text \<open>
  \<open>newMCPServer\<close>: the options handed to the MCP library and the tokens kept. The read of
  \<open>clientConfig.Options.LogEnabled\<close> is not guarded.
\<close>

record Server =
  serverName :: string
  serverVersion :: string
  withLogging :: bool
  staticBasePath :: string
  serverBaseURL :: string
  serverTokens :: "string list"

definition newMCPServer :: "string \<Rightarrow> string \<Rightarrow> string \<Rightarrow> MCPClientConfig \<Rightarrow> Server outcome" where
  "newMCPServer name version baseURL clientConfig =
     (case ClientOptions clientConfig of
        None \<Rightarrow> NilDereference
      | Some opts \<Rightarrow>
          Returns \<lparr>serverName = name, serverVersion = version,
                   withLogging = OrElse (LogEnabled opts) False,
                   staticBasePath = name, serverBaseURL = baseURL,
                   serverTokens = (if length (elems (AuthTokens opts)) > 0
                                   then elems (AuthTokens opts) else [])\<rparr>)"

text \<open>
  The middleware list \<open>startHTTPServer\<close> builds for one backend, and the route it mounts
  the backend at. \<open>path.Join\<close> belongs to Go's library and is a parameter.
\<close>

definition routeMiddlewares :: "string \<Rightarrow> Options \<Rightarrow> MiddlewareFunc list" where
  "routeMiddlewares name opts =
     (let m0 = [];
          m1 = m0 @ [recoverMiddleware name];
          m2 = (if OrElse (LogEnabled opts) False then m1 @ [loggerMiddleware name] else m1);
          m3 = (if length (elems (AuthTokens opts)) > 0
                then m2 @ [newAuthMiddleware (elems (AuthTokens opts))] else m2)
      in m3)"

definition mcpRoute :: "(string \<Rightarrow> string \<Rightarrow> string) \<Rightarrow> string \<Rightarrow> string \<Rightarrow> string" where
  "mcpRoute pathJoin basePath name =
     (let r0 = pathJoin basePath name;
          r1 = (if \<not> HasPrefix r0 ''/'' then ''/'' @ r0 else r0);
          r2 = (if \<not> HasSuffix r1 ''/'' then r1 @ ''/'' else r1)
      in r2)"

text \<open>
  The function \<open>startHTTPServer\<close> hands to \<open>errorGroup.Go\<close> for one backend, from the
  result \<open>addErr\<close> of \<open>addToMCPServer\<close>: it returns the error (the start-up is aborted),
  returns nil without mounting, or mounts the chained handler at the route. Its log
  lines and the shutdown hook are left out.
\<close>

datatype taskResult = Aborted error | Skipped | Mounted string handler

definition startHTTPServer_task ::
  "(string \<Rightarrow> string \<Rightarrow> string) \<Rightarrow> string \<Rightarrow> string \<Rightarrow> MCPClientConfig \<Rightarrow> handler
     \<Rightarrow> error option \<Rightarrow> taskResult outcome" where
  "startHTTPServer_task pathJoin basePath name clientConfig sseServer addErr =
     (case ClientOptions clientConfig of
        None \<Rightarrow> NilDereference
      | Some opts \<Rightarrow>
          (case addErr of
             Some err \<Rightarrow>
               if OrElse (PanicIfInvalid opts) False then Returns (Aborted err)
               else Returns Skipped
           | None \<Rightarrow>
               Returns (Mounted (mcpRoute pathJoin basePath name)
                          (chainMiddleware sseServer (routeMiddlewares name opts)))))"

section \<open>Backend clients and capability registration (client.go)\<close>

text \<open>
  The entries a backend advertises. The proxy reads only their names; the second field
  stands for the rest of the entry.
\<close>

record Tool =
  tool_Name :: string
  tool_Description :: string

record Prompt =
  prompt_Name :: string
  prompt_Description :: string

record Resource =
  resource_Name :: string
  resource_URI :: string

record ResourceTemplate =
  template_Name :: string
  template_URITemplate :: string

text \<open>
  The per-backend MCP server, as the registrations made on it, in the order of the
  \<open>AddTool\<close>, \<open>AddPrompt\<close>, \<open>AddResource\<close> and \<open>AddResourceTemplate\<close> calls.
\<close>

record MCPServer =
  tools :: "Tool list"
  prompts :: "Prompt list"
  resources :: "Resource list"
  resourceTemplates :: "ResourceTemplate list"

definition AddTool :: "Tool \<Rightarrow> MCPServer \<Rightarrow> MCPServer" where
  "AddTool t s = s\<lparr>tools := tools s @ [t]\<rparr>"

definition AddPrompt :: "Prompt \<Rightarrow> MCPServer \<Rightarrow> MCPServer" where
  "AddPrompt p s = s\<lparr>prompts := prompts s @ [p]\<rparr>"

definition AddResource :: "Resource \<Rightarrow> MCPServer \<Rightarrow> MCPServer" where
  "AddResource r s = s\<lparr>resources := resources s @ [r]\<rparr>"

definition AddResourceTemplate :: "ResourceTemplate \<Rightarrow> MCPServer \<Rightarrow> MCPServer" where
  "AddResourceTemplate r s = s\<lparr>resourceTemplates := resourceTemplates s @ [r]\<rparr>"

text \<open>
  The backend behind \<open>c.client\<close>. It answers a request for one page of a list with an
  error or with the page (its entries and its next cursor); the answer may depend on the
  cursor asked for and on how many requests for pages of that list came before (the
  first argument).
\<close>

type_synonym 'a pager = "nat \<Rightarrow> string \<Rightarrow> error + 'a list \<times> string"

record Backend =
  Start :: "error option"
  Initialize :: "error option"
  ToolPages :: "Tool pager"
  PromptPages :: "Prompt pager"
  ResourcePages :: "Resource pager"
  ResourceTemplatePages :: "ResourceTemplate pager"

text \<open>
  The list calls of the client library, \<open>c.client.ListTools\<close>, \<open>ListPrompts\<close>,
  \<open>ListResources\<close> and \<open>ListResourceTemplates\<close>. The library (mcp-go) is not among the
  repository's files; the calls are modelled as the library behaves. A call asks the
  backend for the page at the request's cursor and, as long as the page it got last
  carries a non-empty next cursor, for the page at that cursor, appending its entries
  to those it has; it returns all the entries with the last, empty cursor. A failed
  request ends the call with the error, and the entries collected are dropped. The
  call does not return while the backend keeps sending cursors, so its result is an
  option. \<open>n\<close> counts the page requests sent so far; the call returns the new count
  with its result.
\<close>

type_synonym 'a lister = "nat \<Rightarrow> string \<Rightarrow> ((error + 'a list \<times> string) \<times> nat) option"

partial_function (option) followCursors ::
  "'a pager \<Rightarrow> nat \<Rightarrow> 'a list \<Rightarrow> string \<Rightarrow> ((error + 'a list \<times> string) \<times> nat) option" where
  "followCursors pages n acc cursor =
     (case pages n cursor of
        Inl err \<Rightarrow> Some (Inl err, Suc n)
      | Inr (items, nextCursor) \<Rightarrow>
          if nextCursor = [] then Some (Inr (acc @ items, []), Suc n)
          else followCursors pages (Suc n) (acc @ items) nextCursor)"

declare followCursors.simps [code]

definition ClientList :: "'a pager \<Rightarrow> 'a lister" where
  "ClientList pages n cursor = followCursors pages n [] cursor"

definition ListTools :: "Backend \<Rightarrow> Tool lister" where
  "ListTools b = ClientList (ToolPages b)"

definition ListPrompts :: "Backend \<Rightarrow> Prompt lister" where
  "ListPrompts b = ClientList (PromptPages b)"

definition ListResources :: "Backend \<Rightarrow> Resource lister" where
  "ListResources b = ClientList (ResourcePages b)"

definition ListResourceTemplates :: "Backend \<Rightarrow> ResourceTemplate lister" where
  "ListResourceTemplates b = ClientList (ResourceTemplatePages b)"

record Client =
  c_name :: string
  c_needPing :: bool
  c_needManualStart :: bool
  c_client :: Backend
  c_options :: "Options option"

text \<open>
  What the registration routines change: the per-backend server, the log, and the ping
  tasks started (by client name).
\<close>

record World =
  mcpServer :: MCPServer
  logs :: "logline list"
  pingTasks :: "string list"

definition logPrintf :: "string \<Rightarrow> logarg list \<Rightarrow> World \<Rightarrow> World" where
  "logPrintf fmt args w = w\<lparr>logs := logs w @ [Printf fmt args]\<rparr>"

text \<open>
  The filter function \<open>addToolsToServer\<close> builds: it answers whether a tool name is
  admitted, with the line it logs when it rejects one. Building it logs one line when
  the mode is unknown. \<open>strings.ToLower\<close> is a parameter.
\<close>

type_synonym filterFunc = "string \<Rightarrow> bool \<times> logline list"

definition admitAll :: filterFunc where
  "admitAll toolName = (True, [])"

definition newToolFilter :: "(string \<Rightarrow> string) \<Rightarrow> Client \<Rightarrow> filterFunc \<times> logline list" where
  "newToolFilter ToLower c =
     (case c_options c of
        None \<Rightarrow> (admitAll, [])
      | Some opts \<Rightarrow>
          (case ToolFilter opts of
             None \<Rightarrow> (admitAll, [])
           | Some tf \<Rightarrow>
               if length (ToolList tf) > 0 then
                 (let filterSet = set (ToolList tf);
                      mode = ToLower (Mode tf)
                  in if mode = ToolFilterModeAllow then
                       ((\<lambda>toolName.
                           (toolName \<in> filterSet,
                            if toolName \<notin> filterSet
                            then [Printf ''<%s> Ignoring tool %s as it is not in allow list''
                                    [Str (c_name c), Str toolName]]
                            else [])), [])
                     else if mode = ToolFilterModeBlock then
                       ((\<lambda>toolName.
                           (toolName \<notin> filterSet,
                            if toolName \<in> filterSet
                            then [Printf ''<%s> Ignoring tool %s as it is in block list''
                                    [Str (c_name c), Str toolName]]
                            else [])), [])
                     else
                       (admitAll,
                        [Printf ''<%s> Unknown tool filter mode: %s, skipping tool filter''
                           [Str (c_name c), Str mode]]))
               else (admitAll, [])))"

text \<open>The inner loops: what is done with the entries of one non-empty page.\<close>

fun addTools :: "string \<Rightarrow> filterFunc \<Rightarrow> Tool list \<Rightarrow> World \<Rightarrow> World" where
  "addTools cname ff [] w = w"
| "addTools cname ff (tool # rest) w =
     (case ff (tool_Name tool) of
        (admitted, lines) \<Rightarrow>
          (let w1 = w\<lparr>logs := logs w @ lines\<rparr>;
               w2 = (if admitted
                     then (logPrintf ''<%s> Adding tool %s'' [Str cname, Str (tool_Name tool)] w1)
                            \<lparr>mcpServer := AddTool tool (mcpServer w1)\<rparr>
                     else w1)
           in addTools cname ff rest w2))"

definition toolsPage :: "string \<Rightarrow> filterFunc \<Rightarrow> Tool list \<Rightarrow> World \<Rightarrow> World" where
  "toolsPage cname ff items w =
     addTools cname ff items
       (logPrintf ''<%s> Successfully listed %d tools'' [Str cname, Num (length items)] w)"

fun addPrompts :: "string \<Rightarrow> Prompt list \<Rightarrow> World \<Rightarrow> World" where
  "addPrompts cname [] w = w"
| "addPrompts cname (prompt # rest) w =
     addPrompts cname rest
       ((logPrintf ''<%s> Adding prompt %s'' [Str cname, Str (prompt_Name prompt)] w)
          \<lparr>mcpServer := AddPrompt prompt (mcpServer w)\<rparr>)"

definition promptsPage :: "string \<Rightarrow> Prompt list \<Rightarrow> World \<Rightarrow> World" where
  "promptsPage cname items w =
     addPrompts cname items
       (logPrintf ''<%s> Successfully listed %d prompts'' [Str cname, Num (length items)] w)"

fun addResources :: "string \<Rightarrow> Resource list \<Rightarrow> World \<Rightarrow> World" where
  "addResources cname [] w = w"
| "addResources cname (resource # rest) w =
     addResources cname rest
       ((logPrintf ''<%s> Adding resource %s'' [Str cname, Str (resource_Name resource)] w)
          \<lparr>mcpServer := AddResource resource (mcpServer w)\<rparr>)"

definition resourcesPage :: "string \<Rightarrow> Resource list \<Rightarrow> World \<Rightarrow> World" where
  "resourcesPage cname items w =
     addResources cname items
       (logPrintf ''<%s> Successfully listed %d resources'' [Str cname, Num (length items)] w)"

fun addResourceTemplates :: "string \<Rightarrow> ResourceTemplate list \<Rightarrow> World \<Rightarrow> World" where
  "addResourceTemplates cname [] w = w"
| "addResourceTemplates cname (resourceTemplate # rest) w =
     addResourceTemplates cname rest
       ((logPrintf ''<%s> Adding resource template %s''
           [Str cname, Str (template_Name resourceTemplate)] w)
          \<lparr>mcpServer := AddResourceTemplate resourceTemplate (mcpServer w)\<rparr>)"

definition resourceTemplatesPage :: "string \<Rightarrow> ResourceTemplate list \<Rightarrow> World \<Rightarrow> World" where
  "resourceTemplatesPage cname items w =
     addResourceTemplates cname items
       (logPrintf ''<%s> Successfully listed %d resource templates''
          [Str cname, Num (length items)] w)"

text \<open>
  The paging loop, which the four registration routines repeat word for word: make the
  list call with the cursor; return the error of a failed call; stop when the call
  returned no entries; otherwise register the entries, stop when the next cursor is
  empty, and go on with the next cursor. \<open>n\<close> is the count of page requests the list
  calls thread through, \<open>reqs\<close> collects the cursors the loop asked for. The loop does
  not return when a list call does not, and may run forever itself, so the result is an
  option.
\<close>

partial_function (option) pagedList ::
  "'a lister \<Rightarrow> ('a list \<Rightarrow> World \<Rightarrow> World) \<Rightarrow> nat \<Rightarrow> string \<Rightarrow> World \<Rightarrow> string list
     \<Rightarrow> (error option \<times> World \<times> string list) option" where
  "pagedList list page n cursor w reqs =
     (case list n cursor of
        None \<Rightarrow> None
      | Some (Inl err, n') \<Rightarrow> Some (Some err, w, reqs @ [cursor])
      | Some (Inr (items, nextCursor), n') \<Rightarrow>
          if length items = 0 then Some (None, w, reqs @ [cursor])
          else if nextCursor = [] then Some (None, page items w, reqs @ [cursor])
          else pagedList list page n' nextCursor (page items w) (reqs @ [cursor]))"

declare pagedList.simps [code]

definition addToolsToServer ::
  "(string \<Rightarrow> string) \<Rightarrow> Client \<Rightarrow> World \<Rightarrow> (error option \<times> World \<times> string list) option" where
  "addToolsToServer ToLower c w =
     (case newToolFilter ToLower c of
        (ff, lines) \<Rightarrow>
          pagedList (ListTools (c_client c)) (toolsPage (c_name c) ff) 0 []
            (w\<lparr>logs := logs w @ lines\<rparr>) [])"

definition addPromptsToServer ::
  "Client \<Rightarrow> World \<Rightarrow> (error option \<times> World \<times> string list) option" where
  "addPromptsToServer c w =
     pagedList (ListPrompts (c_client c)) (promptsPage (c_name c)) 0 [] w []"

definition addResourcesToServer ::
  "Client \<Rightarrow> World \<Rightarrow> (error option \<times> World \<times> string list) option" where
  "addResourcesToServer c w =
     pagedList (ListResources (c_client c)) (resourcesPage (c_name c)) 0 [] w []"

definition addResourceTemplatesToServer ::
  "Client \<Rightarrow> World \<Rightarrow> (error option \<times> World \<times> string list) option" where
  "addResourceTemplatesToServer c w =
     pagedList (ListResourceTemplates (c_client c)) (resourceTemplatesPage (c_name c)) 0 [] w []"

text \<open>
  \<open>addToMCPServer\<close>: the error it returns (or none), and the world it leaves. The results
  of the prompt, resource and resource-template routines are assigned to \<open>_\<close>.
\<close>

definition addToMCPServer ::
  "(string \<Rightarrow> string) \<Rightarrow> Client \<Rightarrow> World \<Rightarrow> (error option \<times> World) option" where
  "addToMCPServer ToLower c w =
     (case (if c_needManualStart c then Start (c_client c) else None) of
        Some err \<Rightarrow> Some (Some err, w)
      | None \<Rightarrow>
          (case Initialize (c_client c) of
             Some err \<Rightarrow> Some (Some err, w)
           | None \<Rightarrow>
               (case addToolsToServer ToLower c
                       (logPrintf ''<%s> Successfully initialized MCP client'' [Str (c_name c)] w) of
                  None \<Rightarrow> None
                | Some (Some err, w2, q2) \<Rightarrow> Some (Some err, w2)
                | Some (None, w2, q2) \<Rightarrow>
                    (case addPromptsToServer c w2 of
                       None \<Rightarrow> None
                     | Some (r3, w3, q3) \<Rightarrow>
                         (case addResourcesToServer c w3 of
                            None \<Rightarrow> None
                          | Some (r4, w4, q4) \<Rightarrow>
                              (case addResourceTemplatesToServer c w4 of
                                 None \<Rightarrow> None
                               | Some (r5, w5, q5) \<Rightarrow>
                                   Some (None,
                                     if c_needPing c
                                     then w5\<lparr>pingTasks := pingTasks w5 @ [c_name c]\<rparr>
                                     else w5)))))))"

section \<open>The pages of a backend\<close>

text \<open>
  The notions the statements about listing are written in. They describe the exchange
  with the backend, not the code: the parts of an answer, the cursor of each page
  request, and the entries on the first pages.
\<close>

definition nextOf :: "error + 'a list \<times> string \<Rightarrow> string" where
  "nextOf r = (case r of Inl err \<Rightarrow> [] | Inr (items, nextCursor) \<Rightarrow> nextCursor)"

definition itemsOf :: "error + 'a list \<times> string \<Rightarrow> 'a list" where
  "itemsOf r = (case r of Inl err \<Rightarrow> [] | Inr (items, nextCursor) \<Rightarrow> items)"

text \<open>
  The cursor of page request number \<open>n + j\<close> when request number \<open>n\<close> asks for cursor \<open>c\<close>
  and every later request asks for the cursor the page before it carried.
\<close>

fun cursorFrom :: "'a pager \<Rightarrow> nat \<Rightarrow> string \<Rightarrow> nat \<Rightarrow> string" where
  "cursorFrom pages n c 0 = c"
| "cursorFrom pages n c (Suc j) = nextOf (pages (n + j) (cursorFrom pages n c j))"

text \<open>
  From the first request: the cursor of request \<open>k\<close> (empty for the first, then the next
  cursor of the page before) and the backend's answer to it.
\<close>

fun cursorAt :: "'a pager \<Rightarrow> nat \<Rightarrow> string"
  and pageAt :: "'a pager \<Rightarrow> nat \<Rightarrow> error + 'a list \<times> string" where
  "cursorAt pages 0 = []"
| "cursorAt pages (Suc k) = nextOf (pageAt pages k)"
| "pageAt pages k = pages k (cursorAt pages k)"

text \<open>An answer after which no further page is asked for: an error, or a page whose next
  cursor is empty.\<close>

definition lastPage :: "error + 'a list \<times> string \<Rightarrow> bool" where
  "lastPage r = (case r of Inl err \<Rightarrow> True | Inr (items, nextCursor) \<Rightarrow> nextCursor = [])"

text \<open>The entries on the first \<open>m\<close> pages of the backend.\<close>

definition advertised :: "'a pager \<Rightarrow> nat \<Rightarrow> 'a list" where
  "advertised pages m = concat (map (\<lambda>j. itemsOf (pageAt pages j)) [0..<m])"

section \<open>Go's \<open>path.Join\<close>\<close>

text \<open>
  A model of \<open>path.Join\<close> for two elements, following the documentation of Go's \<open>path\<close>
  package: empty elements are ignored, the result is cleaned (repeated slashes, \<open>.\<close>
  elements and inner \<open>..\<close> elements are removed, a trailing slash is kept only for the
  root), and joining only empty elements gives the empty string. The theorems about
  routes hold for every join function; this one instantiates them.
\<close>

fun splitSlash :: "string \<Rightarrow> string list" where
  "splitSlash [] = [[]]"
| "splitSlash (c # cs) =
     (if c = CHR ''/'' then [] # splitSlash cs
      else (case splitSlash cs of [] \<Rightarrow> [[c]] | x # xs \<Rightarrow> (c # x) # xs))"

fun cleanStep :: "bool \<Rightarrow> string list \<Rightarrow> string \<Rightarrow> string list" where
  "cleanStep rooted stack e =
     (if e = [] \<or> e = ''.'' then stack
      else if e = ''..'' then
        (case stack of
           [] \<Rightarrow> if rooted then [] else [''..'']
         | t # below \<Rightarrow> if t = ''..'' then ''..'' # stack else below)
      else e # stack)"

fun joinSlash :: "string list \<Rightarrow> string" where
  "joinSlash [] = []"
| "joinSlash [x] = x"
| "joinSlash (x # y # ys) = x @ ''/'' @ joinSlash (y # ys)"

definition path_Clean :: "string \<Rightarrow> string" where
  "path_Clean p =
     (if p = [] then ''.''
      else (let rooted = (hd p = CHR ''/'');
                body = joinSlash (rev (foldl (cleanStep rooted) [] (splitSlash p)))
            in if rooted then ''/'' @ body
               else if body = [] then ''.'' else body))"

definition path_Join :: "string \<Rightarrow> string \<Rightarrow> string" where
  "path_Join a b =
     (if a = [] \<and> b = [] then []
      else path_Clean (if a = [] then b else a @ ''/'' @ b))"

section \<open>A sample backend\<close>

text \<open>
  \<open>strings.ToLower\<close> on ASCII letters, to instantiate the parameter of the tool filter.
\<close>

definition asciiToLower :: "string \<Rightarrow> string" where
  "asciiToLower s =
     map (\<lambda>ch. case map_of (zip ''ABCDEFGHIJKLMNOPQRSTUVWXYZ'' ''abcdefghijklmnopqrstuvwxyz'') ch of
                  None \<Rightarrow> ch | Some l \<Rightarrow> l) s"

text \<open>
  A backend with three tools on two pages, one prompt and no resources; a client for it
  that allows two of the tools; and the same client over a backend that does not
  support prompts.
\<close>

definition toolA :: Tool where
  "toolA = \<lparr>tool_Name = ''create_file'', tool_Description = ''Create a file''\<rparr>"

definition toolB :: Tool where
  "toolB = \<lparr>tool_Name = ''delete_file'', tool_Description = ''Delete a file''\<rparr>"

definition toolC :: Tool where
  "toolC = \<lparr>tool_Name = ''search'', tool_Description = ''Search the repository''\<rparr>"

definition promptP :: Prompt where
  "promptP = \<lparr>prompt_Name = ''review'', prompt_Description = ''Review a change''\<rparr>"

definition exampleBackend :: Backend where
  "exampleBackend =
     \<lparr>Start = None, Initialize = None,
      ToolPages = (\<lambda>n cur. if cur = [] then Inr ([toolA, toolB], ''page2'')
                            else Inr ([toolC], [])),
      PromptPages = (\<lambda>n cur. Inr ([promptP], [])),
      ResourcePages = (\<lambda>n cur. Inr ([], [])),
      ResourceTemplatePages = (\<lambda>n cur. Inr ([], []))\<rparr>"

definition exampleClient :: Client where
  "exampleClient =
     \<lparr>c_name = ''fetch'', c_needPing = True, c_needManualStart = True,
      c_client = exampleBackend,
      c_options = Some \<lparr>PanicIfInvalid = None, LogEnabled = None, AuthTokens = None,
                         ToolFilter = Some \<lparr>Mode = ''Allow'',
                                             ToolList = [''create_file'', ''search'']\<rparr>\<rparr>\<rparr>"

definition emptyWorld :: World where
  "emptyWorld = \<lparr>mcpServer = \<lparr>tools = [], prompts = [], resources = [], resourceTemplates = []\<rparr>,
                 logs = [], pingTasks = []\<rparr>"

definition promptlessClient :: Client where
  "promptlessClient =
     exampleClient\<lparr>c_client := exampleBackend\<lparr>PromptPages := (\<lambda>n cur. Inl ''Method not found'')\<rparr>\<rparr>"

text \<open>
  The sample client with another tool filter, and over a backend whose \<open>Initialize\<close>
  call fails.
\<close>

definition clientWithFilter :: "string \<Rightarrow> string list \<Rightarrow> Client" where
  "clientWithFilter mode names =
     exampleClient\<lparr>c_options :=
       Some \<lparr>PanicIfInvalid = None, LogEnabled = None, AuthTokens = None,
              ToolFilter = Some \<lparr>Mode = mode, ToolList = names\<rparr>\<rparr>\<rparr>"

definition unreachableClient :: Client where
  "unreachableClient =
     exampleClient\<lparr>c_client := exampleBackend\<lparr>Initialize := Some ''connection refused''\<rparr>\<rparr>"

text \<open>
  The sample client over a backend whose first page of tools is empty but carries a
  cursor to a second page with one tool, and over a backend whose pages of resources are
  all empty and all carry a cursor.
\<close>

definition sparseClient :: Client where
  "sparseClient =
     exampleClient\<lparr>c_client := exampleBackend
       \<lparr>ToolPages := (\<lambda>n cur. if cur = [] then Inr ([], ''more'') else Inr ([toolC], []))\<rparr>\<rparr>"

definition endlessClient :: Client where
  "endlessClient =
     exampleClient\<lparr>c_client := exampleBackend\<lparr>ResourcePages := (\<lambda>n cur. Inr ([], ''ignored''))\<rparr>\<rparr>"

section \<open>A sample configuration\<close>

text \<open>
  Two backends behind a proxy that requires a token and enables logging: \<open>github\<close> sets
  no options, \<open>fetch\<close> sets \<open>panicIfInvalid\<close> to false and \<open>authTokens\<close> to the empty list.
\<close>

definition exampleProxy :: MCPProxyConfig where
  "exampleProxy = \<lparr>BaseURL = ''http://localhost:9090/api'', Addr = '':9090'', ProxyName = ''proxy'',
     Version = ''1.0.0'',
     ProxyOptions = Some \<lparr>PanicIfInvalid = Some True, LogEnabled = Some True,
                            AuthTokens = Some [''SECRET''], ToolFilter = None\<rparr>\<rparr>"

definition githubConfig :: MCPClientConfig where
  "githubConfig = \<lparr>TransportType = [], Command = ''npx'', Args = [''-y'', ''server-github''],
     Env = [], URL = [], Headers = [], Timeout = 0, ClientOptions = None\<rparr>"

definition fetchConfig :: MCPClientConfig where
  "fetchConfig = \<lparr>TransportType = [], Command = [], Args = [], Env = [],
     URL = ''http://localhost:8000/sse'', Headers = [], Timeout = 0,
     ClientOptions = Some \<lparr>PanicIfInvalid = Some False, LogEnabled = None,
                             AuthTokens = Some [], ToolFilter = None\<rparr>\<rparr>"

definition exampleConfig :: Config where
  "exampleConfig = \<lparr>McpProxy = Some exampleProxy,
     McpServers = [(''github'', Some githubConfig), (''fetch'', Some fetchConfig)]\<rparr>"

definition exampleLoaded :: Config where
  "exampleLoaded = \<lparr>McpProxy = Some exampleProxy,
     McpServers =
       [(''github'', Some (githubConfig\<lparr>ClientOptions :=
            Some \<lparr>PanicIfInvalid = Some True, LogEnabled = Some True,
                   AuthTokens = Some [''SECRET''], ToolFilter = None\<rparr>\<rparr>)),
        (''fetch'', Some (fetchConfig\<lparr>ClientOptions :=
            Some \<lparr>PanicIfInvalid = Some False, LogEnabled = Some True,
                   AuthTokens = Some [], ToolFilter = None\<rparr>\<rparr>))]\<rparr>"

definition okHandler :: handler where
  "okHandler = (\<lambda>r. ([Respond 200 ''ok''], Finished))"

definition anonymousRequest :: Request where
  "anonymousRequest = \<lparr>Method = ''GET'', URLPath = ''/fetch/sse'', Header = []\<rparr>"

definition securedOptions :: Options where
  "securedOptions = \<lparr>PanicIfInvalid = None, LogEnabled = Some True,
                      AuthTokens = Some [''SECRET''], ToolFilter = None\<rparr>"

chapter \<open>Verification\<close>

section \<open>Transport inference\<close>

text \<open>
  C2. The resolver returns the stdio variant when the command is non-empty or the
  transport type is "stdio", and in that branch fails exactly when the command is empty;
  otherwise, with a non-empty URL, it returns the streamable-http variant when the
  transport type is "streamable-http" and the sse variant for every other transport
  type; otherwise it fails. The three cases are exhaustive.
\<close>

theorem parseMCPClientConfig_variants:
  "(Command conf \<noteq> [] \<or> TransportType conf = ''stdio'' \<longrightarrow>
      ((\<exists>e. parseMCPClientConfig conf = Inl e) \<longleftrightarrow> Command conf = []) \<and>
      (Command conf \<noteq> [] \<longrightarrow>
         parseMCPClientConfig conf =
           Inr (StdioInfo \<lparr>stdio_Command = Command conf, stdio_Env = Env conf,
                           stdio_Args = Args conf\<rparr>)))
   \<and> (Command conf = [] \<and> TransportType conf \<noteq> ''stdio'' \<and> URL conf \<noteq> [] \<longrightarrow>
        (TransportType conf = ''streamable-http'' \<longrightarrow>
           parseMCPClientConfig conf =
             Inr (StreamableInfo \<lparr>streamable_URL = URL conf, streamable_Headers = Headers conf,
                                  streamable_Timeout = Timeout conf\<rparr>)) \<and>
        (TransportType conf \<noteq> ''streamable-http'' \<longrightarrow>
           parseMCPClientConfig conf =
             Inr (SSEInfo \<lparr>sse_URL = URL conf, sse_Headers = Headers conf\<rparr>)))
   \<and> (Command conf = [] \<and> TransportType conf \<noteq> ''stdio'' \<and> URL conf = [] \<longrightarrow>
        (\<exists>e. parseMCPClientConfig conf = Inl e))"
  by (simp add: parseMCPClientConfig_def MCPClientTypeStdio_def MCPClientTypeStreamable_def)

theorem parseMCPClientConfig_variants_witness:
  "parseMCPClientConfig githubConfig =
     Inr (StdioInfo \<lparr>stdio_Command = ''npx'', stdio_Env = [],
                     stdio_Args = [''-y'', ''server-github'']\<rparr>)
   \<and> (\<exists>e. parseMCPClientConfig (githubConfig\<lparr>Command := [], TransportType := ''stdio''\<rparr>) = Inl e)
   \<and> parseMCPClientConfig fetchConfig =
       Inr (SSEInfo \<lparr>sse_URL = ''http://localhost:8000/sse'', sse_Headers = []\<rparr>)
   \<and> parseMCPClientConfig (fetchConfig\<lparr>TransportType := ''streamable-http''\<rparr>) =
       Inr (StreamableInfo \<lparr>streamable_URL = ''http://localhost:8000/sse'',
                            streamable_Headers = [], streamable_Timeout = 0\<rparr>)
   \<and> (\<exists>e. parseMCPClientConfig (fetchConfig\<lparr>URL := []\<rparr>) = Inl e)"
  using parseMCPClientConfig_variants [of githubConfig]
    parseMCPClientConfig_variants [of "githubConfig\<lparr>Command := [], TransportType := ''stdio''\<rparr>"]
    parseMCPClientConfig_variants [of fetchConfig]
    parseMCPClientConfig_variants [of "fetchConfig\<lparr>TransportType := ''streamable-http''\<rparr>"]
    parseMCPClientConfig_variants [of "fetchConfig\<lparr>URL := []\<rparr>"]
  by (simp add: githubConfig_def fetchConfig_def)

section \<open>Configuration loading\<close>

lemma loadServers_Returns:
  "loadServers proxyOpts servers = Returns servers' \<Longrightarrow>
   length servers' = length servers \<and>
   (\<forall>i < length servers. \<exists>cc. servers ! i = (fst (servers ! i), Some cc) \<and>
        servers' ! i = (fst (servers ! i), Some (applyDefaults proxyOpts cc)))"
proof (induction proxyOpts servers arbitrary: servers' rule: loadServers.induct)
  case (1 proxyOpts)
  then show ?case by simp
next
  case (2 proxyOpts name rest)
  then show ?case by simp
next
  case (3 proxyOpts name clientConfig rest)
  from "3.prems" obtain rest' where r: "loadServers proxyOpts rest = Returns rest'"
    and s: "servers' = (name, Some (applyDefaults proxyOpts clientConfig)) # rest'"
    by (auto split: outcome.splits)
  from "3.IH"[OF r] have ih: "length rest' = length rest"
    "\<forall>i < length rest. \<exists>cc. rest ! i = (fst (rest ! i), Some cc) \<and>
        rest' ! i = (fst (rest ! i), Some (applyDefaults proxyOpts cc))" by auto
  show ?case
  proof (intro conjI allI impI)
    show "length servers' = length ((name, Some clientConfig) # rest)" using s ih by simp
  next
    fix i assume "i < length ((name, Some clientConfig) # rest)"
    then show "\<exists>cc. ((name, Some clientConfig) # rest) ! i = (fst (((name, Some clientConfig) # rest) ! i), Some cc) \<and>
        servers' ! i = (fst (((name, Some clientConfig) # rest) ! i), Some (applyDefaults proxyOpts cc))"
      using s ih by (cases i) auto
  qed
qed

lemma load_Inr:
  "load loaded = Returns (Inr conf') \<Longrightarrow>
   \<exists>conf proxy proxyOpts. loaded = Inr conf \<and> McpProxy conf = Some proxy \<and>
     proxyOpts = (case ProxyOptions proxy of None \<Rightarrow> emptyOptions | Some opts \<Rightarrow> opts) \<and>
     McpProxy conf' = Some (proxy\<lparr>ProxyOptions := Some proxyOpts\<rparr>) \<and>
     loadServers proxyOpts (McpServers conf) = Returns (McpServers conf')"
  by (auto simp: load_def Let_def split: sum.splits option.splits outcome.splits)

lemma applyDefaults_options:
  "\<exists>opts'. ClientOptions (applyDefaults p cc) = Some opts' \<and>
     AuthTokens opts' = (case ClientOptions cc of None \<Rightarrow> AuthTokens p | Some opts \<Rightarrow> (case AuthTokens opts of None \<Rightarrow> AuthTokens p | Some ts \<Rightarrow> Some ts)) \<and>
     PanicIfInvalid opts' = (case ClientOptions cc of None \<Rightarrow> PanicIfInvalid p | Some opts \<Rightarrow> (case PanicIfInvalid opts of None \<Rightarrow> PanicIfInvalid p | Some b \<Rightarrow> Some b)) \<and>
     LogEnabled opts' = (case ClientOptions cc of None \<Rightarrow> LogEnabled p | Some opts \<Rightarrow> (case LogEnabled opts of None \<Rightarrow> LogEnabled p | Some b \<Rightarrow> Some b)) \<and>
     ToolFilter opts' = (case ClientOptions cc of None \<Rightarrow> None | Some opts \<Rightarrow> ToolFilter opts)"
  by (auto simp: applyDefaults_def Let_def Present_def emptyOptions_def split: option.splits)

lemma load_example: "load (Inr exampleConfig) = Returns (Inr exampleLoaded)"
  by (simp add: load_def exampleConfig_def exampleLoaded_def exampleProxy_def githubConfig_def
      fetchConfig_def applyDefaults_def Present_def emptyOptions_def Let_def)

lemma load_effective_options:
  assumes "load (Inr conf) = Returns (Inr conf')"
  shows "\<exists>proxy proxyOpts.
           McpProxy conf' = Some proxy \<and> ProxyOptions proxy = Some proxyOpts \<and>
           proxyOpts = (case Option.bind (McpProxy conf) ProxyOptions of
                          None \<Rightarrow> emptyOptions | Some opts \<Rightarrow> opts) \<and>
           length (McpServers conf') = length (McpServers conf) \<and>
           (\<forall>i < length (McpServers conf). \<exists>name cc cc' opts'.
              McpServers conf ! i = (name, Some cc) \<and>
              McpServers conf' ! i = (name, Some cc') \<and>
              ClientOptions cc' = Some opts' \<and>
              AuthTokens opts' =
                (case Option.bind (ClientOptions cc) AuthTokens of
                   None \<Rightarrow> AuthTokens proxyOpts | Some ts \<Rightarrow> Some ts) \<and>
              PanicIfInvalid opts' =
                (case Option.bind (ClientOptions cc) PanicIfInvalid of
                   None \<Rightarrow> PanicIfInvalid proxyOpts | Some b \<Rightarrow> Some b) \<and>
              LogEnabled opts' =
                (case Option.bind (ClientOptions cc) LogEnabled of
                   None \<Rightarrow> LogEnabled proxyOpts | Some b \<Rightarrow> Some b))"
proof -
  from load_Inr[OF assms] obtain proxy po where
    p: "McpProxy conf = Some proxy"
    and po_def: "po = (case ProxyOptions proxy of None \<Rightarrow> emptyOptions | Some opts \<Rightarrow> opts)"
    and p': "McpProxy conf' = Some (proxy\<lparr>ProxyOptions := Some po\<rparr>)"
    and ls: "loadServers po (McpServers conf) = Returns (McpServers conf')"
    by blast
  have po_eq: "po = (case Option.bind (McpProxy conf) ProxyOptions of None \<Rightarrow> emptyOptions | Some opts \<Rightarrow> opts)"
    by (simp add: po_def p)
  from loadServers_Returns[OF ls] have len: "length (McpServers conf') = length (McpServers conf)"
    and el: "\<And>i. i < length (McpServers conf) \<Longrightarrow> \<exists>cc. McpServers conf ! i = (fst (McpServers conf ! i), Some cc) \<and>
        McpServers conf' ! i = (fst (McpServers conf ! i), Some (applyDefaults po cc))"
    by auto
  have per: "\<exists>name cc cc' opts'.
              McpServers conf ! i = (name, Some cc) \<and>
              McpServers conf' ! i = (name, Some cc') \<and>
              ClientOptions cc' = Some opts' \<and>
              AuthTokens opts' =
                (case Option.bind (ClientOptions cc) AuthTokens of
                   None \<Rightarrow> AuthTokens po | Some ts \<Rightarrow> Some ts) \<and>
              PanicIfInvalid opts' =
                (case Option.bind (ClientOptions cc) PanicIfInvalid of
                   None \<Rightarrow> PanicIfInvalid po | Some b \<Rightarrow> Some b) \<and>
              LogEnabled opts' =
                (case Option.bind (ClientOptions cc) LogEnabled of
                   None \<Rightarrow> LogEnabled po | Some b \<Rightarrow> Some b)" if i: "i < length (McpServers conf)" for i
  proof -
    from el[OF i] obtain cc where a: "McpServers conf ! i = (fst (McpServers conf ! i), Some cc)"
      and b: "McpServers conf' ! i = (fst (McpServers conf ! i), Some (applyDefaults po cc))" by blast
    from applyDefaults_options[of po cc] obtain opts' where
      o: "ClientOptions (applyDefaults po cc) = Some opts'"
      and t: "AuthTokens opts' = (case ClientOptions cc of None \<Rightarrow> AuthTokens po | Some opts \<Rightarrow> (case AuthTokens opts of None \<Rightarrow> AuthTokens po | Some ts \<Rightarrow> Some ts))"
      and pi: "PanicIfInvalid opts' = (case ClientOptions cc of None \<Rightarrow> PanicIfInvalid po | Some opts \<Rightarrow> (case PanicIfInvalid opts of None \<Rightarrow> PanicIfInvalid po | Some b \<Rightarrow> Some b))"
      and le: "LogEnabled opts' = (case ClientOptions cc of None \<Rightarrow> LogEnabled po | Some opts \<Rightarrow> (case LogEnabled opts of None \<Rightarrow> LogEnabled po | Some b \<Rightarrow> Some b))"
      by blast
    show ?thesis
      apply (rule exI[of _ "fst (McpServers conf ! i)"], rule exI[of _ cc],
             rule exI[of _ "applyDefaults po cc"], rule exI[of _ opts'])
      using a b o t pi le by (simp split: option.splits)
  qed
  show ?thesis
    apply (rule exI[of _ "proxy\<lparr>ProxyOptions := Some po\<rparr>"], rule exI[of _ po])
    using p' len per po_eq by simp
qed

text \<open>
  C7. After \<open>load\<close> returns a configuration, every backend carries options in which
  \<open>authTokens\<close>, \<open>panicIfInvalid\<close> and \<open>logEnabled\<close> are the backend's own value where the
  backend set the field, and the proxy-level value where the backend left it unset
  (no options at all, a nil token list, an absent boolean). A boolean set to false is
  kept, whatever the proxy-level value is.
\<close>

theorem load_inheritance:
  assumes "load (Inr conf) = Returns (Inr conf')"
  shows "\<exists>proxy proxyOpts.
           McpProxy conf' = Some proxy \<and> ProxyOptions proxy = Some proxyOpts \<and>
           proxyOpts = (case Option.bind (McpProxy conf) ProxyOptions of
                          None \<Rightarrow> emptyOptions | Some opts \<Rightarrow> opts) \<and>
           length (McpServers conf') = length (McpServers conf) \<and>
           (\<forall>i < length (McpServers conf). \<exists>name cc cc' opts'.
              McpServers conf ! i = (name, Some cc) \<and>
              McpServers conf' ! i = (name, Some cc') \<and>
              ClientOptions cc' = Some opts' \<and>
              AuthTokens opts' =
                (case Option.bind (ClientOptions cc) AuthTokens of
                   None \<Rightarrow> AuthTokens proxyOpts | Some ts \<Rightarrow> Some ts) \<and>
              PanicIfInvalid opts' =
                (case Option.bind (ClientOptions cc) PanicIfInvalid of
                   None \<Rightarrow> PanicIfInvalid proxyOpts | Some b \<Rightarrow> Some b) \<and>
              LogEnabled opts' =
                (case Option.bind (ClientOptions cc) LogEnabled of
                   None \<Rightarrow> LogEnabled proxyOpts | Some b \<Rightarrow> Some b))"
  using load_effective_options [OF assms] .

theorem load_inheritance_witness:
  "load (Inr exampleConfig) = Returns (Inr exampleLoaded) \<and>
   (\<exists>cc' opts'. McpServers exampleLoaded ! 0 = (''github'', Some cc') \<and>
       ClientOptions cc' = Some opts' \<and> AuthTokens opts' = Some [''SECRET''] \<and>
       PanicIfInvalid opts' = Some True \<and> LogEnabled opts' = Some True) \<and>
   (\<exists>cc' opts'. McpServers exampleLoaded ! 1 = (''fetch'', Some cc') \<and>
       ClientOptions cc' = Some opts' \<and> AuthTokens opts' = Some [] \<and>
       PanicIfInvalid opts' = Some False \<and> LogEnabled opts' = Some True)"
proof -
  have h: "load (Inr exampleConfig) = Returns (Inr exampleLoaded)"
    by (rule load_example)
  from load_inheritance[OF h] obtain proxy proxyOpts where
    "McpProxy exampleLoaded = Some proxy" "ProxyOptions proxy = Some proxyOpts"
    by blast
  then show ?thesis using h
    by (simp add: exampleLoaded_def githubConfig_def fetchConfig_def)
qed

text \<open>
  C10. When \<open>load\<close> returns a configuration, the proxy's \<open>Options\<close> pointer and the
  \<open>Options\<close> pointer of every backend are non-nil, so the unguarded reads of
  \<open>clientConfig.Options\<close> in \<open>newMCPServer\<close> and in the task of \<open>startHTTPServer\<close> are not
  nil dereferences.
\<close>

theorem load_options_non_nil:
  assumes "load loaded = Returns (Inr conf')"
  shows "(\<exists>proxy proxyOpts. McpProxy conf' = Some proxy \<and> ProxyOptions proxy = Some proxyOpts) \<and>
         (\<forall>entry \<in> set (McpServers conf'). \<exists>cc opts.
            snd entry = Some cc \<and> ClientOptions cc = Some opts \<and>
            newMCPServer (fst entry) version baseURL cc \<noteq> NilDereference \<and>
            startHTTPServer_task pathJoin basePath (fst entry) cc sseServer addErr
              \<noteq> NilDereference)"
proof -
  from load_Inr[OF assms] obtain conf proxy po where
    "loaded = Inr conf" "McpProxy conf = Some proxy"
    "po = (case ProxyOptions proxy of None \<Rightarrow> emptyOptions | Some opts \<Rightarrow> opts)"
    and p': "McpProxy conf' = Some (proxy\<lparr>ProxyOptions := Some po\<rparr>)"
    and ls: "loadServers po (McpServers conf) = Returns (McpServers conf')"
    by blast
  have first: "\<exists>proxy proxyOpts. McpProxy conf' = Some proxy \<and> ProxyOptions proxy = Some proxyOpts"
    using p' by simp
  have second: "\<exists>cc opts.
            snd entry = Some cc \<and> ClientOptions cc = Some opts \<and>
            newMCPServer (fst entry) version baseURL cc \<noteq> NilDereference \<and>
            startHTTPServer_task pathJoin basePath (fst entry) cc sseServer addErr
              \<noteq> NilDereference" if "entry \<in> set (McpServers conf')" for entry
  proof -
    from that obtain i where i: "i < length (McpServers conf')" and e: "entry = McpServers conf' ! i"
      by (auto simp: in_set_conv_nth)
    from loadServers_Returns[OF ls] i obtain cc0 where
      "McpServers conf' ! i = (fst (McpServers conf ! i), Some (applyDefaults po cc0))"
      by auto
    moreover obtain opts where "ClientOptions (applyDefaults po cc0) = Some opts"
      using applyDefaults_options by blast
    ultimately show ?thesis using e
      by (auto simp: newMCPServer_def startHTTPServer_task_def split: option.splits)
  qed
  from first second show ?thesis by blast
qed

theorem load_options_non_nil_witness:
  "load (Inr exampleConfig) = Returns (Inr exampleLoaded) \<and>
   (\<exists>proxy proxyOpts. McpProxy exampleLoaded = Some proxy \<and> ProxyOptions proxy = Some proxyOpts) \<and>
   (\<exists>cc opts. (''github'', Some cc) \<in> set (McpServers exampleLoaded) \<and>
      ClientOptions cc = Some opts \<and>
      newMCPServer ''github'' ''1.0.0'' ''http://localhost:9090/api'' cc \<noteq> NilDereference \<and>
      startHTTPServer_task path_Join ''/api'' ''github'' cc okHandler None \<noteq> NilDereference)"
proof -
  have h: "load (Inr exampleConfig) = Returns (Inr exampleLoaded)"
    by (rule load_example)
  have m: "(''github'', Some (githubConfig\<lparr>ClientOptions :=
            Some \<lparr>PanicIfInvalid = Some True, LogEnabled = Some True,
                   AuthTokens = Some [''SECRET''], ToolFilter = None\<rparr>\<rparr>)) \<in> set (McpServers exampleLoaded)"
    by (simp add: exampleLoaded_def)
  from load_options_non_nil[OF h, of "''1.0.0''" "''http://localhost:9090/api''" path_Join "''/api''" okHandler None]
  have a: "\<exists>proxy proxyOpts. McpProxy exampleLoaded = Some proxy \<and> ProxyOptions proxy = Some proxyOpts"
    and b: "\<forall>entry \<in> set (McpServers exampleLoaded). \<exists>cc opts.
            snd entry = Some cc \<and> ClientOptions cc = Some opts \<and>
            newMCPServer (fst entry) ''1.0.0'' ''http://localhost:9090/api'' cc \<noteq> NilDereference \<and>
            startHTTPServer_task path_Join ''/api'' (fst entry) cc okHandler None \<noteq> NilDereference"
    by blast+
  from bspec[OF b m] have "\<exists>cc opts. (''github'', Some cc) \<in> set (McpServers exampleLoaded) \<and>
      ClientOptions cc = Some opts \<and>
      newMCPServer ''github'' ''1.0.0'' ''http://localhost:9090/api'' cc \<noteq> NilDereference \<and>
      startHTTPServer_task path_Join ''/api'' ''github'' cc okHandler None \<noteq> NilDereference"
    using m by auto
  with h a show ?thesis by blast
qed

lemma load_nil_backend:
  "McpProxy conf = Some proxy \<Longrightarrow> (name, None) \<in> set (McpServers conf) \<Longrightarrow>
   load (Inr conf) = NilDereference"
proof -
  have "(name, None) \<in> set servers \<Longrightarrow> loadServers proxyOpts servers = NilDereference"
    for proxyOpts servers
    by (induction proxyOpts servers rule: loadServers.induct) auto
  then show "McpProxy conf = Some proxy \<Longrightarrow> (name, None) \<in> set (McpServers conf) \<Longrightarrow>
    load (Inr conf) = NilDereference"
    by (simp add: load_def Let_def)
qed

lemma newMCPServer_nil_options:
  "ClientOptions cc = None \<Longrightarrow> newMCPServer name version baseURL cc = NilDereference"
  by (simp add: newMCPServer_def)

section \<open>Middleware chain\<close>

lemma chainMiddleware_three: "chainMiddleware h [m1, m2, m3] = m3 (m2 (m1 h))"
  by (simp add: chainMiddleware_def)

lemma adapter_chainMiddleware_three: "adapter_chainMiddleware h [m1, m2, m3] = m1 (m2 (m3 h))"
  by (simp add: adapter_chainMiddleware_def)

lemma routeMiddlewares_full:
  "OrElse (LogEnabled opts) False \<Longrightarrow> elems (AuthTokens opts) \<noteq> [] \<Longrightarrow>
   chainMiddleware h (routeMiddlewares name opts) =
     newAuthMiddleware (elems (AuthTokens opts)) (loggerMiddleware name (recoverMiddleware name h))"
  by (simp add: routeMiddlewares_def chainMiddleware_def Let_def)

text \<open>
  C1. The claim is that \<open>chainMiddleware h [m1, m2, m3]\<close> is \<open>m1 (m2 (m3 h))\<close>, so that on a
  route built from recover, log, auth the recover middleware runs first, then log, then
  auth. The proxy's loop applies the list front to back instead
  (\<open>chainMiddleware_three\<close>), so auth is outermost: with logging enabled and the token
  \<open>SECRET\<close> required, a request without an \<open>Authorization\<close> header is answered 401 and no
  request line is logged, whereas under the claimed order the request line is logged
  before the 401.
\<close>

theorem chainMiddleware_auth_runs_first:
  "chainMiddleware okHandler (routeMiddlewares ''fetch'' securedOptions) anonymousRequest =
     ([HttpError ''Unauthorized'' 401], Finished)
   \<and> recoverMiddleware ''fetch'' (loggerMiddleware ''fetch''
        (newAuthMiddleware [''SECRET''] okHandler)) anonymousRequest =
     ([Logged (Printf ''<%s> Request [%s] %s'' [Str ''fetch'', Str ''GET'', Str ''/fetch/sse'']),
       HttpError ''Unauthorized'' 401], Finished)"
  by (simp add: chainMiddleware_def routeMiddlewares_def securedOptions_def anonymousRequest_def
      okHandler_def OrElse_def elems_def newAuthMiddleware_def loggerMiddleware_def
      recoverMiddleware_def Header_Get_def TrimPrefix_def TrimSpace_def HasPrefix_def
      unauthorized_def Let_def)

section \<open>Bearer-token authentication\<close>

lemma newAuthMiddleware_no_tokens: "newAuthMiddleware [] next r = next r"
  by (simp add: newAuthMiddleware_def)

lemma newAuthMiddleware_decision:
  "tokens \<noteq> [] \<Longrightarrow>
   newAuthMiddleware tokens next r =
     (if TrimSpace (TrimPrefix (Header_Get (Header r) ''Authorization'') ''Bearer '') \<noteq> [] \<and>
         TrimSpace (TrimPrefix (Header_Get (Header r) ''Authorization'') ''Bearer '') \<in> set tokens
      then next r else unauthorized)"
  by (simp add: newAuthMiddleware_def Let_def)

lemma newAuthMiddleware_missing_header:
  "tokens \<noteq> [] \<Longrightarrow> map_of (Header r) ''Authorization'' = None \<Longrightarrow>
   newAuthMiddleware tokens next r = unauthorized"
  by (simp add: newAuthMiddleware_def Let_def Header_Get_def TrimPrefix_def HasPrefix_def
      TrimSpace_def)

text \<open>
  C6. The claim is that, with a non-empty token set, a request is answered 401 when the
  \<open>Authorization\<close> header is missing, uses a scheme other than \<open>Bearer\<close>, or carries a
  token outside the set. The middleware strips the prefix \<open>Bearer\<close> only where it is
  present and does not require it: a header whose whole value is a configured token
  (\<open>Authorization: SECRET\<close>, or \<open>Authorization: Basic dXNlcjpwYXNz\<close> when that string is
  configured) is passed to the downstream handler.
\<close>

theorem newAuthMiddleware_accepts_bare_token:
  "newAuthMiddleware [''SECRET''] next
     \<lparr>Method = ''GET'', URLPath = ''/fetch/sse'', Header = [(''Authorization'', ''SECRET'')]\<rparr> =
   next \<lparr>Method = ''GET'', URLPath = ''/fetch/sse'', Header = [(''Authorization'', ''SECRET'')]\<rparr>
   \<and> newAuthMiddleware [''Basic dXNlcjpwYXNz''] next
     \<lparr>Method = ''GET'', URLPath = ''/fetch/sse'',
      Header = [(''Authorization'', ''Basic dXNlcjpwYXNz'')]\<rparr> =
   next \<lparr>Method = ''GET'', URLPath = ''/fetch/sse'',
         Header = [(''Authorization'', ''Basic dXNlcjpwYXNz'')]\<rparr>"
  by (simp add: newAuthMiddleware_def Let_def Header_Get_def TrimPrefix_def HasPrefix_def
      TrimSpace_def whiteSpace_def HasSuffix_def)

lemma newAuthMiddleware_bearer_tokens:
  "newAuthMiddleware [''SECRET''] next (r\<lparr>Header := [(''Authorization'', ''Bearer SECRET'')]\<rparr>) =
     next (r\<lparr>Header := [(''Authorization'', ''Bearer SECRET'')]\<rparr>)"
  "newAuthMiddleware [''SECRET''] next (r\<lparr>Header := [(''Authorization'', ''Bearer WRONG'')]\<rparr>) =
     unauthorized"
  by (simp_all add: newAuthMiddleware_def Let_def Header_Get_def TrimPrefix_def HasPrefix_def
      TrimSpace_def whiteSpace_def HasSuffix_def)

lemma adapter_newAuthMiddleware_rejects_bare_token:
  "adapter_newAuthMiddleware [''SECRET''] next
     \<lparr>Method = ''GET'', URLPath = ''/fetch/sse'', Header = [(''Authorization'', ''SECRET'')]\<rparr> =
   ([HttpError ''Bearer token required'' 401], Finished)"
  by (simp add: adapter_newAuthMiddleware_def Header_Get_def HasPrefix_def)

section \<open>Routes\<close>

lemma mcpRoute_slashes:
  "HasPrefix (mcpRoute pathJoin basePath name) ''/'' \<and> HasSuffix (mcpRoute pathJoin basePath name) ''/''"
  by (auto simp: mcpRoute_def Let_def HasPrefix_def HasSuffix_def)

lemma mcpRoute_eq:
  "mcpRoute pathJoin basePath name =
     (if HasPrefix (pathJoin basePath name) ''/'' then [] else ''/'') @ pathJoin basePath name @
     (if pathJoin basePath name = [] \<or> HasSuffix (pathJoin basePath name) ''/'' then [] else ''/'')"
  apply (cases "pathJoin basePath name" rule: rev_cases)
  by (auto simp: mcpRoute_def Let_def HasPrefix_def HasSuffix_def)

text \<open>
  C8. A backend that initialized successfully is mounted at the route obtained from
  \<open>path.Join (baseURL.Path, name)\<close> by putting a slash in front unless it starts with one
  and a slash behind unless it ends with one; the route starts and ends with a slash
  for every base path, the empty one included.
\<close>

theorem mounted_route_normalized:
  assumes "ClientOptions cc = Some opts"
  shows "(\<exists>h. startHTTPServer_task pathJoin basePath name cc sseServer None =
                Returns (Mounted (mcpRoute pathJoin basePath name) h)) \<and>
         HasPrefix (mcpRoute pathJoin basePath name) ''/'' \<and>
         HasSuffix (mcpRoute pathJoin basePath name) ''/'' \<and>
         mcpRoute pathJoin basePath name =
           (if HasPrefix (pathJoin basePath name) ''/'' then [] else ''/'') @
           pathJoin basePath name @
           (if pathJoin basePath name = [] \<or> HasSuffix (pathJoin basePath name) ''/''
            then [] else ''/'')"
  using assms mcpRoute_slashes[of pathJoin basePath name] mcpRoute_eq[of pathJoin basePath name]
  by (simp add: startHTTPServer_task_def)

theorem mounted_route_normalized_witness:
  "ClientOptions fetchConfig \<noteq> None \<and>
   (\<exists>h. startHTTPServer_task path_Join [] ''fetch'' fetchConfig okHandler None =
         Returns (Mounted ''/fetch/'' h)) \<and>
   (\<exists>h. startHTTPServer_task path_Join ''/api/v1/'' ''fetch'' fetchConfig okHandler None =
         Returns (Mounted ''/api/v1/fetch/'' h))"
proof -
  have o: "ClientOptions fetchConfig = Some \<lparr>PanicIfInvalid = Some False, LogEnabled = None,
                             AuthTokens = Some [], ToolFilter = None\<rparr>"
    by (simp add: fetchConfig_def)
  have r1: "mcpRoute path_Join [] ''fetch'' = ''/fetch/''"
    by (simp add: mcpRoute_def path_Join_def path_Clean_def HasPrefix_def HasSuffix_def)
  have r2: "mcpRoute path_Join ''/api/v1/'' ''fetch'' = ''/api/v1/fetch/''"
    by (simp add: mcpRoute_def path_Join_def path_Clean_def HasPrefix_def HasSuffix_def)
  from mounted_route_normalized[OF o, of path_Join "[]" "''fetch''" okHandler]
  have a: "\<exists>h. startHTTPServer_task path_Join [] ''fetch'' fetchConfig okHandler None =
         Returns (Mounted ''/fetch/'' h)"
    unfolding r1 by blast
  from mounted_route_normalized[OF o, of path_Join "''/api/v1/''" "''fetch''" okHandler]
  have b: "\<exists>h. startHTTPServer_task path_Join ''/api/v1/'' ''fetch'' fetchConfig okHandler None =
         Returns (Mounted ''/api/v1/fetch/'' h)"
    unfolding r2 by blast
  from a b o show ?thesis by simp
qed

lemma chain_without_auth_eq:
  "elems (AuthTokens opts) = [] \<Longrightarrow>
   chainMiddleware sseServer (routeMiddlewares name opts) r =
     ((if OrElse (LogEnabled opts) False
       then [Logged (Printf ''<%s> Request [%s] %s'' [Str name, Str (Method r), Str (URLPath r)])]
       else []) @ fst (sseServer r) @
      (case snd (sseServer r) of
         Finished \<Rightarrow> []
       | Panicked err \<Rightarrow>
           [Logged (Printf ''<%s> Recovered from panic: %v'' [Str name, Str err]),
            HttpError ''Internal Server Error'' 500]), Finished)"
  by (cases "sseServer r"; cases "snd (sseServer r)")
     (auto simp: chainMiddleware_def routeMiddlewares_def Let_def loggerMiddleware_def
        recoverMiddleware_def)

lemma chain_without_auth:
  "elems (AuthTokens opts) = [] \<Longrightarrow>
   \<exists>pre post. chainMiddleware sseServer (routeMiddlewares name opts) r =
      (pre @ fst (sseServer r) @ post, Finished)"
  using chain_without_auth_eq[of opts sseServer name r] by blast

text \<open>
  C9. A backend whose options set \<open>authTokens\<close> to a present, empty list keeps the empty
  list through \<open>load\<close>, whatever the proxy-level tokens are; its route gets the recover
  middleware and, when enabled, the logger, but no auth middleware, and every request
  reaches the backend's handler.
\<close>

theorem empty_authTokens_disable_auth:
  assumes "load (Inr conf) = Returns (Inr conf')"
    and "i < length (McpServers conf)"
    and "McpServers conf ! i = (name, Some cc)"
    and "ClientOptions cc = Some opts"
    and "AuthTokens opts = Some []"
  shows "\<exists>cc' opts' h.
           McpServers conf' ! i = (name, Some cc') \<and> ClientOptions cc' = Some opts' \<and>
           AuthTokens opts' = Some [] \<and>
           routeMiddlewares name opts' =
             recoverMiddleware name #
               (if OrElse (LogEnabled opts') False then [loggerMiddleware name] else []) \<and>
           startHTTPServer_task pathJoin basePath name cc' sseServer None =
             Returns (Mounted (mcpRoute pathJoin basePath name) h) \<and>
           (\<forall>r. \<exists>pre post. h r = (pre @ fst (sseServer r) @ post, Finished))"
proof -
  from load_effective_options[OF assms(1)] assms(2) obtain name' cc0 cc' opts' where
    a: "McpServers conf ! i = (name', Some cc0)"
    and b: "McpServers conf' ! i = (name', Some cc')"
    and c: "ClientOptions cc' = Some opts'"
    and d: "AuthTokens opts' =
                (case Option.bind (ClientOptions cc0) AuthTokens of
                   None \<Rightarrow> AuthTokens (case Option.bind (McpProxy conf) ProxyOptions of
                          None \<Rightarrow> emptyOptions | Some opts \<Rightarrow> opts) | Some ts \<Rightarrow> Some ts)"
    by blast
  from a assms(3) have n: "name' = name" and cc: "cc0 = cc" by simp_all
  from d assms(4,5) cc have t: "AuthTokens opts' = Some []" by simp
  define h where "h = chainMiddleware sseServer (routeMiddlewares name opts')"
  have mw: "routeMiddlewares name opts' =
             recoverMiddleware name #
               (if OrElse (LogEnabled opts') False then [loggerMiddleware name] else [])"
    using t by (simp add: routeMiddlewares_def Let_def elems_def)
  have task: "startHTTPServer_task pathJoin basePath name cc' sseServer None =
             Returns (Mounted (mcpRoute pathJoin basePath name) h)"
    using c by (simp add: startHTTPServer_task_def h_def)
  have pass: "\<exists>pre post. h r = (pre @ fst (sseServer r) @ post, Finished)" for r
    unfolding h_def using t by (intro chain_without_auth) (simp add: elems_def)
  show ?thesis
    apply (rule exI[of _ cc'], rule exI[of _ opts'], rule exI[of _ h])
    using b n c t mw task pass by simp
qed

theorem empty_authTokens_disable_auth_witness:
  "load (Inr exampleConfig) = Returns (Inr exampleLoaded) \<and>
   McpServers exampleConfig ! 1 = (''fetch'', Some fetchConfig) \<and>
   Option.bind (ClientOptions fetchConfig) AuthTokens = Some [] \<and>
   Option.bind (Option.bind (McpProxy exampleConfig) ProxyOptions) AuthTokens = Some [''SECRET''] \<and>
   (\<exists>cc' h. McpServers exampleLoaded ! 1 = (''fetch'', Some cc') \<and>
      startHTTPServer_task path_Join ''/api'' ''fetch'' cc' okHandler None =
        Returns (Mounted ''/api/fetch/'' h) \<and>
      h anonymousRequest =
        ([Logged (Printf ''<%s> Request [%s] %s'' [Str ''fetch'', Str ''GET'', Str ''/fetch/sse'']),
          Respond 200 ''ok''], Finished))"
proof -
  have h: "load (Inr exampleConfig) = Returns (Inr exampleLoaded)"
    by (rule load_example)
  have i: "1 < length (McpServers exampleConfig)"
    and e: "McpServers exampleConfig ! 1 = (''fetch'', Some fetchConfig)"
    by (simp_all add: exampleConfig_def)
  have o: "ClientOptions fetchConfig = Some \<lparr>PanicIfInvalid = Some False, LogEnabled = None,
                             AuthTokens = Some [], ToolFilter = None\<rparr>"
    by (simp add: fetchConfig_def)
  have r: "mcpRoute path_Join ''/api'' ''fetch'' = ''/api/fetch/''"
    by (simp add: mcpRoute_def path_Join_def path_Clean_def HasPrefix_def HasSuffix_def)
  from empty_authTokens_disable_auth[OF h i e o, of path_Join "''/api''" okHandler]
  obtain cc' opts' h' where
    1: "McpServers exampleLoaded ! 1 = (''fetch'', Some cc')"
    and 2: "ClientOptions cc' = Some opts'"
    and 3: "startHTTPServer_task path_Join ''/api'' ''fetch'' cc' okHandler None =
             Returns (Mounted (mcpRoute path_Join ''/api'' ''fetch'') h')"
    by auto
  from 1 2 have opts': "opts' = \<lparr>PanicIfInvalid = Some False, LogEnabled = Some True,
                   AuthTokens = Some [], ToolFilter = None\<rparr>"
    by (auto simp: exampleLoaded_def fetchConfig_def)
  from 3 2 have h': "h' = chainMiddleware okHandler (routeMiddlewares ''fetch'' opts')"
    by (simp add: startHTTPServer_task_def)
  have run: "h' anonymousRequest =
        ([Logged (Printf ''<%s> Request [%s] %s'' [Str ''fetch'', Str ''GET'', Str ''/fetch/sse'']),
          Respond 200 ''ok''], Finished)"
    by (simp add: h' opts' chainMiddleware_def routeMiddlewares_def OrElse_def elems_def
        loggerMiddleware_def recoverMiddleware_def okHandler_def anonymousRequest_def Let_def)
  show ?thesis
    using h e 1 3 run
    by (simp add: r fetchConfig_def exampleConfig_def exampleProxy_def)
qed

section \<open>Listing through the client library\<close>

lemma cursorFrom_shift:
  "cursorFrom pages n c (Suc j) = cursorFrom pages (Suc n) (nextOf (pages n c)) j"
  by (induction j) simp_all

lemma upt_0_Suc: "[0..<Suc k] = 0 # map Suc [0..<k]"
  by (simp add: upt_conv_Cons map_Suc_upt del: upt_Suc)

lemma cursorAt_cursorFrom: "cursorAt pages k = cursorFrom pages 0 [] k"
  by (induction k) simp_all

lemma followCursors_run:
  "(\<forall>i<k. \<not> lastPage (pages (n + i) (cursorFrom pages n c i))) \<Longrightarrow>
   lastPage (pages (n + k) (cursorFrom pages n c k)) \<Longrightarrow>
   followCursors pages n acc c =
     Some (case pages (n + k) (cursorFrom pages n c k) of
             Inl err \<Rightarrow> Inl err
           | Inr p \<Rightarrow>
               Inr (acc @ concat (map (\<lambda>j. itemsOf (pages (n + j) (cursorFrom pages n c j)))
                                    [0..<Suc k]), []),
           n + Suc k)"
proof (induction k arbitrary: n c acc)
  case 0
  then show ?case
    by (subst followCursors.simps)
       (auto simp: lastPage_def itemsOf_def split: sum.splits)
next
  case (Suc k)
  from Suc.prems(1) have nf: "\<not> lastPage (pages n c)" by force
  then obtain items nextCursor where r: "pages n c = Inr (items, nextCursor)"
    and ne: "nextCursor \<noteq> []"
    by (auto simp: lastPage_def split: sum.splits)
  have nx: "nextOf (pages n c) = nextCursor" and it: "itemsOf (pages n c) = items"
    by (simp_all add: r nextOf_def itemsOf_def)
  have a: "\<forall>i<k. \<not> lastPage (pages (Suc n + i) (cursorFrom pages (Suc n) nextCursor i))"
  proof (intro allI impI)
    fix i assume "i < k"
    then have "\<not> lastPage (pages (n + Suc i) (cursorFrom pages n c (Suc i)))"
      using Suc.prems(1) by (meson Suc_less_eq)
    then show "\<not> lastPage (pages (Suc n + i) (cursorFrom pages (Suc n) nextCursor i))"
      by (simp add: cursorFrom_shift nx del: cursorFrom.simps(2))
  qed
  have b: "lastPage (pages (Suc n + k) (cursorFrom pages (Suc n) nextCursor k))"
    using Suc.prems(2) by (simp add: cursorFrom_shift nx del: cursorFrom.simps(2))
  have step: "followCursors pages n acc c = followCursors pages (Suc n) (acc @ items) nextCursor"
    by (subst followCursors.simps) (simp add: r ne)
  have m: "map (\<lambda>j. itemsOf (pages (n + j) (cursorFrom pages n c j))) [0..<Suc (Suc k)] =
           items # map (\<lambda>j. itemsOf (pages (Suc n + j) (cursorFrom pages (Suc n) nextCursor j)))
                     [0..<Suc k]"
    unfolding upt_0_Suc[of "Suc k"]
    by (simp add: comp_def cursorFrom_shift nx it del: cursorFrom.simps(2) upt_Suc)
  show ?case
    unfolding step Suc.IH[OF a b] m
    by (simp add: cursorFrom_shift nx del: cursorFrom.simps(2) upt_Suc split: sum.splits)
qed

lemma followCursors_returns_last:
  assumes "followCursors pages n acc c = Some out"
  shows "\<exists>k. lastPage (pages (n + k) (cursorFrom pages n c k))"
proof (rule followCursors.raw_induct
    [where P = "\<lambda>pages n acc c out. \<exists>k. lastPage (pages (n + k) (cursorFrom pages n c k))",
     OF _ assms])
  fix follow :: "'a pager \<Rightarrow> nat \<Rightarrow> 'a list \<Rightarrow> string \<Rightarrow> ((error + 'a list \<times> string) \<times> nat) option"
  fix pages n acc c out
  assume IH: "\<And>pages n acc c out. follow pages n acc c = Some out \<Longrightarrow>
                \<exists>k. lastPage (pages (n + k) (cursorFrom pages n c k))"
  assume body: "(case pages n c of
        Inl err \<Rightarrow> Some (Inl err, Suc n)
      | Inr (items, nextCursor) \<Rightarrow>
          if nextCursor = [] then Some (Inr (acc @ items, []), Suc n)
          else follow pages (Suc n) (acc @ items) nextCursor) = Some out"
  show "\<exists>k. lastPage (pages (n + k) (cursorFrom pages n c k))"
  proof (cases "lastPage (pages n c)")
    case True
    then show ?thesis by (intro exI[of _ 0]) simp
  next
    case False
    then obtain items nextCursor where r: "pages n c = Inr (items, nextCursor)"
      and ne: "nextCursor \<noteq> []"
      by (auto simp: lastPage_def split: sum.splits)
    from body have "follow pages (Suc n) (acc @ items) nextCursor = Some out"
      by (simp add: r ne)
    from IH[OF this] obtain k where
      "lastPage (pages (Suc n + k) (cursorFrom pages (Suc n) nextCursor k))"
      by blast
    then have "lastPage (pages (n + Suc k) (cursorFrom pages n c (Suc k)))"
      by (simp add: cursorFrom_shift r nextOf_def del: cursorFrom.simps(2))
    then show ?thesis by blast
  qed
qed

lemma ClientList_run:
  assumes "\<forall>i<k. \<not> lastPage (pageAt pages i)" and "lastPage (pageAt pages k)"
  shows "ClientList pages 0 [] =
           Some (case pageAt pages k of
                   Inl err \<Rightarrow> Inl err
                 | Inr p \<Rightarrow> Inr (advertised pages (Suc k), []),
                 Suc k)"
proof -
  have m: "map (\<lambda>j. itemsOf (pages (0 + j) (cursorFrom pages 0 [] j))) [0..<Suc k] =
           map (\<lambda>j. itemsOf (pageAt pages j)) [0..<Suc k]"
    by (simp add: cursorAt_cursorFrom)
  have "followCursors pages 0 [] [] =
     Some (case pages (0 + k) (cursorFrom pages 0 [] k) of
             Inl err \<Rightarrow> Inl err
           | Inr p \<Rightarrow>
               Inr ([] @ concat (map (\<lambda>j. itemsOf (pages (0 + j) (cursorFrom pages 0 [] j)))
                                    [0..<Suc k]), []),
           0 + Suc k)"
    using assms by (intro followCursors_run) (simp_all add: cursorAt_cursorFrom)
  then show ?thesis
    unfolding m
    by (simp add: ClientList_def advertised_def cursorAt_cursorFrom del: upt_Suc
             split: sum.splits)
qed

lemma ClientList_diverges:
  assumes "\<forall>k. \<not> lastPage (pageAt pages k)"
  shows "ClientList pages 0 [] = None"
proof (cases "ClientList pages 0 []")
  case None then show ?thesis .
next
  case (Some out)
  then have "followCursors pages 0 [] [] = Some out" by (simp add: ClientList_def)
  from followCursors_returns_last[OF this] assms show ?thesis
    by (simp add: cursorAt_cursorFrom)
qed

lemma ClientList_returns_iff:
  "(\<exists>out. ClientList pages 0 [] = Some out) \<longleftrightarrow> (\<exists>k. lastPage (pageAt pages k))"
proof
  assume "\<exists>out. ClientList pages 0 [] = Some out"
  then show "\<exists>k. lastPage (pageAt pages k)"
    using ClientList_diverges[of pages] by fastforce
next
  assume "\<exists>k. lastPage (pageAt pages k)"
  then obtain k where "lastPage (pageAt pages k)" "\<forall>i<k. \<not> lastPage (pageAt pages i)"
    using exists_least_iff[of "\<lambda>k. lastPage (pageAt pages k)"] by blast
  from ClientList_run[OF this(2,1)] show "\<exists>out. ClientList pages 0 [] = Some out" by blast
qed

text \<open>One pass of the loop over what a list call returned.\<close>

lemma pagedList_once:
  "list n c = Some (Inr (items, []), n') \<Longrightarrow>
   pagedList list page n c w reqs =
     Some (None, if items = [] then w else page items w, reqs @ [c])"
  by (subst pagedList.simps) simp

lemma pagedList_empty:
  "list n c = Some (Inr ([], nextCursor), n') \<Longrightarrow>
   pagedList list page n c w reqs = Some (None, w, reqs @ [c])"
  by (subst pagedList.simps) simp

lemma pagedList_error:
  "list n c = Some (Inl err, n') \<Longrightarrow>
   pagedList list page n c w reqs = Some (Some err, w, reqs @ [c])"
  by (subst pagedList.simps) simp

lemma pagedList_hangs:
  "list n c = None \<Longrightarrow> pagedList list page n c w reqs = None"
  by (subst pagedList.simps) simp

section \<open>Tool filter\<close>

lemma addTools_server:
  "mcpServer (addTools cname ff items w) =
     (mcpServer w)\<lparr>tools := tools (mcpServer w) @ filter (\<lambda>t. fst (ff (tool_Name t))) items\<rparr>"
  by (induction items arbitrary: w)
     (auto simp: Let_def logPrintf_def AddTool_def split: prod.splits)

lemma toolsPage_tools:
  "tools (mcpServer (toolsPage cname ff items w)) =
     tools (mcpServer w) @ filter (\<lambda>t. fst (ff (tool_Name t))) items"
  by (simp add: toolsPage_def addTools_server logPrintf_def)

lemma addTools_admitAll_logs:
  "\<exists>lines. logs (addTools cname admitAll items w) = logs w @ lines \<and>
           (\<forall>l \<in> set lines. fst l = ''<%s> Adding tool %s'')"
proof (induction items arbitrary: w)
  case Nil
  then show ?case by simp
next
  case (Cons t items)
  let ?w = "(logPrintf ''<%s> Adding tool %s'' [Str cname, Str (tool_Name t)] w)
              \<lparr>mcpServer := AddTool t (mcpServer w)\<rparr>"
  from Cons.IH[of ?w] obtain lines where
    l: "logs (addTools cname admitAll items ?w) = logs ?w @ lines"
    and f: "\<forall>l \<in> set lines. fst l = ''<%s> Adding tool %s''" by blast
  have "logs (addTools cname admitAll (t # items) w) =
          logs w @ (Printf ''<%s> Adding tool %s'' [Str cname, Str (tool_Name t)] # lines)"
    using l by (simp add: admitAll_def Let_def logPrintf_def)
  moreover have "\<forall>l \<in> set (Printf ''<%s> Adding tool %s'' [Str cname, Str (tool_Name t)] # lines).
                   fst l = ''<%s> Adding tool %s''"
    using f by (simp add: Printf_def)
  ultimately show ?case by blast
qed

lemma toolsPage_admitAll_logs:
  "\<exists>lines. logs (toolsPage cname admitAll items w) = logs w @ lines \<and>
           (\<forall>l \<in> set lines. fst l = ''<%s> Adding tool %s'' \<or>
                             fst l = ''<%s> Successfully listed %d tools'')"
proof -
  let ?w = "logPrintf ''<%s> Successfully listed %d tools'' [Str cname, Num (length items)] w"
  from addTools_admitAll_logs[of cname items ?w] obtain more where
    m: "logs (addTools cname admitAll items ?w) = logs ?w @ more"
    and g: "\<forall>l \<in> set more. fst l = ''<%s> Adding tool %s''" by blast
  have "logs (toolsPage cname admitAll items w) =
          logs w @ (Printf ''<%s> Successfully listed %d tools'' [Str cname, Num (length items)]
                    # more)"
    using m by (simp add: toolsPage_def logPrintf_def)
  moreover have "\<forall>l \<in> set (Printf ''<%s> Successfully listed %d tools''
                                 [Str cname, Num (length items)] # more).
                   fst l = ''<%s> Adding tool %s'' \<or>
                   fst l = ''<%s> Successfully listed %d tools''"
    using g by (auto simp: Printf_def)
  ultimately show ?thesis by blast
qed

lemma count_list_other:
  "\<forall>l \<in> set lines. l \<noteq> x \<Longrightarrow> count_list lines x = 0"
  by (induction lines) auto

lemma newToolFilter_allow:
  assumes "c_options c = Some opts" "ToolFilter opts = Some tf" "ToolList tf \<noteq> []"
    and "ToLower (Mode tf) = ''allow''"
  shows "fst (fst (newToolFilter ToLower c) toolName) = (toolName \<in> set (ToolList tf))"
    and "snd (newToolFilter ToLower c) = []"
  using assms by (simp_all add: newToolFilter_def Let_def ToolFilterModeAllow_def)

lemma newToolFilter_block:
  assumes "c_options c = Some opts" "ToolFilter opts = Some tf" "ToolList tf \<noteq> []"
    and "ToLower (Mode tf) = ''block''"
  shows "fst (fst (newToolFilter ToLower c) toolName) = (toolName \<notin> set (ToolList tf))"
    and "snd (newToolFilter ToLower c) = []"
  using assms
  by (simp_all add: newToolFilter_def Let_def ToolFilterModeAllow_def ToolFilterModeBlock_def)

lemma newToolFilter_unknown:
  assumes "c_options c = Some opts" "ToolFilter opts = Some tf" "ToolList tf \<noteq> []"
    and "ToLower (Mode tf) \<noteq> ''allow''" "ToLower (Mode tf) \<noteq> ''block''"
  shows "fst (newToolFilter ToLower c) = admitAll"
    and "snd (newToolFilter ToLower c) =
           [Printf ''<%s> Unknown tool filter mode: %s, skipping tool filter''
              [Str (c_name c), Str (ToLower (Mode tf))]]"
  using assms
  by (simp_all add: newToolFilter_def Let_def ToolFilterModeAllow_def ToolFilterModeBlock_def)

lemma addToolsToServer_listed:
  assumes "\<forall>i<k. \<not> lastPage (pageAt (ToolPages (c_client c)) i)"
    and "pageAt (ToolPages (c_client c)) k = Inr (items, [])"
  shows "addToolsToServer ToLower c w =
           Some (None,
                 if advertised (ToolPages (c_client c)) (Suc k) = []
                 then w\<lparr>logs := logs w @ snd (newToolFilter ToLower c)\<rparr>
                 else toolsPage (c_name c) (fst (newToolFilter ToLower c))
                        (advertised (ToolPages (c_client c)) (Suc k))
                        (w\<lparr>logs := logs w @ snd (newToolFilter ToLower c)\<rparr>),
                 [[]])"
proof -
  have l: "lastPage (pageAt (ToolPages (c_client c)) k)"
    unfolding assms(2) by (simp add: lastPage_def)
  from ClientList_run[OF assms(1) l]
  have "ListTools (c_client c) 0 [] =
          Some (Inr (advertised (ToolPages (c_client c)) (Suc k), []), Suc k)"
    unfolding assms(2) by (simp add: ListTools_def)
  from pagedList_once[where list = "ListTools (c_client c)" and n = 0 and c = "[]", OF this]
  show ?thesis
    by (simp add: addToolsToServer_def split: prod.splits)
qed

lemma addToolsToServer_failed_list:
  assumes "\<forall>i<k. \<not> lastPage (pageAt (ToolPages (c_client c)) i)"
    and "pageAt (ToolPages (c_client c)) k = Inl err"
  shows "addToolsToServer ToLower c w =
           Some (Some err, w\<lparr>logs := logs w @ snd (newToolFilter ToLower c)\<rparr>, [[]])"
proof -
  have l: "lastPage (pageAt (ToolPages (c_client c)) k)"
    unfolding assms(2) by (simp add: lastPage_def)
  from ClientList_run[OF assms(1) l]
  have "ListTools (c_client c) 0 [] = Some (Inl err, Suc k)"
    unfolding assms(2) by (simp add: ListTools_def)
  from pagedList_error[where list = "ListTools (c_client c)" and n = 0 and c = "[]", OF this]
  show ?thesis
    by (simp add: addToolsToServer_def split: prod.splits)
qed

lemma addToolsToServer_hangs:
  assumes "\<forall>k. \<not> lastPage (pageAt (ToolPages (c_client c)) k)"
  shows "addToolsToServer ToLower c w = None"
proof -
  from ClientList_diverges[OF assms] have "ListTools (c_client c) 0 [] = None"
    by (simp add: ListTools_def)
  from pagedList_hangs[where list = "ListTools (c_client c)" and n = 0 and c = "[]", OF this]
  show ?thesis
    by (simp add: addToolsToServer_def split: prod.splits)
qed

text \<open>
  C3. For a backend whose options carry a tool filter with a non-empty list and whose
  pages of tools end at page \<open>k\<close> (the first page with an empty next cursor, no request
  before it having failed): \<open>addToolsToServer\<close> returns without error, and the tools it
  registered are, in order, the tools on the backend's pages 0 to \<open>k\<close> whose name is in the
  list when the lowercased mode is "allow", and those whose name is not in the list when
  it is "block"; for every other mode all of them are registered and the line about the
  unknown mode is logged exactly once. So a rejected tool is never registered.
\<close>

theorem tool_filter_registration:
  assumes "c_options c = Some opts" and "ToolFilter opts = Some tf" and "ToolList tf \<noteq> []"
    and "\<forall>i<k. \<not> lastPage (pageAt (ToolPages (c_client c)) i)"
    and "pageAt (ToolPages (c_client c)) k = Inr (items, [])"
  shows "\<exists>w'. addToolsToServer ToLower c w = Some (None, w', [[]]) \<and>
         (ToLower (Mode tf) = ''allow'' \<longrightarrow>
            tools (mcpServer w') = tools (mcpServer w) @
              filter (\<lambda>t. tool_Name t \<in> set (ToolList tf))
                (advertised (ToolPages (c_client c)) (Suc k))) \<and>
         (ToLower (Mode tf) = ''block'' \<longrightarrow>
            tools (mcpServer w') = tools (mcpServer w) @
              filter (\<lambda>t. tool_Name t \<notin> set (ToolList tf))
                (advertised (ToolPages (c_client c)) (Suc k))) \<and>
         (ToLower (Mode tf) \<noteq> ''allow'' \<and> ToLower (Mode tf) \<noteq> ''block'' \<longrightarrow>
            tools (mcpServer w') = tools (mcpServer w) @
              advertised (ToolPages (c_client c)) (Suc k) \<and>
            count_list (logs w')
              (Printf ''<%s> Unknown tool filter mode: %s, skipping tool filter''
                 [Str (c_name c), Str (ToLower (Mode tf))]) =
            count_list (logs w)
              (Printf ''<%s> Unknown tool filter mode: %s, skipping tool filter''
                 [Str (c_name c), Str (ToLower (Mode tf))]) + 1)"
proof -
  let ?adv = "advertised (ToolPages (c_client c)) (Suc k)"
  let ?ff = "fst (newToolFilter ToLower c)"
  let ?w0 = "w\<lparr>logs := logs w @ snd (newToolFilter ToLower c)\<rparr>"
  define w' where "w' = (if ?adv = [] then ?w0 else toolsPage (c_name c) ?ff ?adv ?w0)"
  have run: "addToolsToServer ToLower c w = Some (None, w', [[]])"
    unfolding w'_def by (rule addToolsToServer_listed[OF assms(4,5)])
  have reg: "tools (mcpServer w') = tools (mcpServer w) @
               filter (\<lambda>t. fst (?ff (tool_Name t))) ?adv"
    unfolding w'_def by (simp add: toolsPage_tools)
  have allow: "tools (mcpServer w') = tools (mcpServer w) @
              filter (\<lambda>t. tool_Name t \<in> set (ToolList tf)) ?adv"
    if "ToLower (Mode tf) = ''allow''"
    using reg newToolFilter_allow(1)[where ToLower = ToLower, OF assms(1-3) that] by simp
  have block: "tools (mcpServer w') = tools (mcpServer w) @
              filter (\<lambda>t. tool_Name t \<notin> set (ToolList tf)) ?adv"
    if "ToLower (Mode tf) = ''block''"
    using reg newToolFilter_block(1)[where ToLower = ToLower, OF assms(1-3) that] by simp
  have other: "tools (mcpServer w') = tools (mcpServer w) @ ?adv \<and>
            count_list (logs w')
              (Printf ''<%s> Unknown tool filter mode: %s, skipping tool filter''
                 [Str (c_name c), Str (ToLower (Mode tf))]) =
            count_list (logs w)
              (Printf ''<%s> Unknown tool filter mode: %s, skipping tool filter''
                 [Str (c_name c), Str (ToLower (Mode tf))]) + 1"
    if m: "ToLower (Mode tf) \<noteq> ''allow''" "ToLower (Mode tf) \<noteq> ''block''"
  proof -
    let ?u = "Printf ''<%s> Unknown tool filter mode: %s, skipping tool filter''
                 [Str (c_name c), Str (ToLower (Mode tf))]"
    note nf = newToolFilter_unknown[where ToLower = ToLower, OF assms(1-3) m]
    have t: "tools (mcpServer w') = tools (mcpServer w) @ ?adv"
      using reg by (simp add: nf(1) admitAll_def)
    have "\<exists>lines. logs w' = logs ?w0 @ lines \<and>
           (\<forall>l \<in> set lines. fst l = ''<%s> Adding tool %s'' \<or>
                             fst l = ''<%s> Successfully listed %d tools'')"
    proof (cases "?adv = []")
      case True
      then show ?thesis unfolding w'_def by simp
    next
      case False
      then show ?thesis
        unfolding w'_def nf(1) using toolsPage_admitAll_logs[of "c_name c" ?adv ?w0] by simp
    qed
    then obtain lines where
      l: "logs w' = logs ?w0 @ lines"
      and f: "\<forall>l \<in> set lines. fst l = ''<%s> Adding tool %s'' \<or>
                              fst l = ''<%s> Successfully listed %d tools''"
      by blast
    have "\<forall>l \<in> set lines. l \<noteq> ?u" using f by (auto simp: Printf_def)
    then have z: "count_list lines ?u = 0" by (rule count_list_other)
    have "logs w' = logs w @ [?u] @ lines" using l by (simp add: nf(2))
    then have "count_list (logs w') ?u = count_list (logs w) ?u + 1"
      using z by simp
    with t show ?thesis by simp
  qed
  from run allow block other show ?thesis by blast
qed

lemma lower_Allow: "asciiToLower ''Allow'' = ''allow''"
  by (simp add: asciiToLower_def)

lemma lower_BLOCK: "asciiToLower ''BLOCK'' = ''block''"
  by (simp add: asciiToLower_def)

lemma lower_deny: "asciiToLower ''deny'' = ''deny''"
  by (simp add: asciiToLower_def)

lemma exampleBackend_tool_pages:
  "\<forall>i<1. \<not> lastPage (pageAt (ToolPages exampleBackend) i)"
  "pageAt (ToolPages exampleBackend) 1 = Inr ([toolC], [])"
  "advertised (ToolPages exampleBackend) (Suc 1) = [toolA, toolB, toolC]"
  by (simp_all add: exampleBackend_def lastPage_def nextOf_def itemsOf_def advertised_def)

theorem tool_filter_registration_witness:
  "(\<exists>w'. addToolsToServer asciiToLower exampleClient emptyWorld = Some (None, w', [[]]) \<and>
          asciiToLower ''Allow'' = ''allow'' \<and>
          advertised (ToolPages exampleBackend) 2 = [toolA, toolB, toolC] \<and>
          tools (mcpServer w') = [toolA, toolC]) \<and>
   (\<exists>w'. addToolsToServer asciiToLower (clientWithFilter ''BLOCK'' [''delete_file''])
               emptyWorld = Some (None, w', [[]]) \<and>
          asciiToLower ''BLOCK'' = ''block'' \<and>
          tools (mcpServer w') = [toolA, toolC]) \<and>
   (\<exists>w'. addToolsToServer asciiToLower (clientWithFilter ''deny'' [''delete_file''])
               emptyWorld = Some (None, w', [[]]) \<and>
          asciiToLower ''deny'' = ''deny'' \<and>
          tools (mcpServer w') = [toolA, toolB, toolC] \<and>
          count_list (logs w')
            (Printf ''<%s> Unknown tool filter mode: %s, skipping tool filter''
               [Str ''fetch'', Str ''deny'']) = 1)"
proof -
  have o: "c_options (clientWithFilter mode names) =
             Some \<lparr>PanicIfInvalid = None, LogEnabled = None, AuthTokens = None,
                    ToolFilter = Some \<lparr>Mode = mode, ToolList = names\<rparr>\<rparr>" for mode names
    by (simp add: clientWithFilter_def)
  have e: "exampleClient = clientWithFilter ''Allow'' [''create_file'', ''search'']"
    by (simp add: clientWithFilter_def exampleClient_def)
  have b: "c_client (clientWithFilter mode names) = exampleBackend" for mode names
    by (simp add: clientWithFilter_def exampleClient_def)
  have be: "c_client exampleClient = exampleBackend"
    by (simp add: exampleClient_def)
  have n: "c_name (clientWithFilter mode names) = ''fetch''" for mode names
    by (simp add: clientWithFilter_def exampleClient_def)
  have p0: "\<forall>i<1. \<not> lastPage (pageAt (ToolPages (c_client (clientWithFilter mode names))) i)"
    and p1: "pageAt (ToolPages (c_client (clientWithFilter mode names))) 1 = Inr ([toolC], [])"
    for mode names
    unfolding b by (rule exampleBackend_tool_pages)+
  have names: "tool_Name toolA = ''create_file''" "tool_Name toolB = ''delete_file''"
    "tool_Name toolC = ''search''"
    by (simp_all add: toolA_def toolB_def toolC_def)
  have empty: "tools (mcpServer emptyWorld) = []" "logs emptyWorld = []"
    by (simp_all add: emptyWorld_def)
  from tool_filter_registration[where c = "clientWithFilter ''Allow'' [''create_file'', ''search'']"
      and tf = "\<lparr>Mode = ''Allow'', ToolList = [''create_file'', ''search'']\<rparr>"
      and ToLower = asciiToLower and w = emptyWorld and k = 1 and items = "[toolC]",
      OF o _ _ p0 p1]
  have allow: "\<exists>w'. addToolsToServer asciiToLower exampleClient emptyWorld = Some (None, w', [[]]) \<and>
          asciiToLower ''Allow'' = ''allow'' \<and>
          advertised (ToolPages exampleBackend) 2 = [toolA, toolB, toolC] \<and>
          tools (mcpServer w') = [toolA, toolC]"
    unfolding b exampleBackend_tool_pages(3) e[symmetric]
    using exampleBackend_tool_pages(3)
    by (auto simp: lower_Allow names empty numeral_2_eq_2 be)
  from tool_filter_registration[where c = "clientWithFilter ''BLOCK'' [''delete_file'']"
      and tf = "\<lparr>Mode = ''BLOCK'', ToolList = [''delete_file'']\<rparr>"
      and ToLower = asciiToLower and w = emptyWorld and k = 1 and items = "[toolC]",
      OF o _ _ p0 p1]
  have block: "\<exists>w'. addToolsToServer asciiToLower (clientWithFilter ''BLOCK'' [''delete_file''])
               emptyWorld = Some (None, w', [[]]) \<and>
          asciiToLower ''BLOCK'' = ''block'' \<and>
          tools (mcpServer w') = [toolA, toolC]"
    unfolding b exampleBackend_tool_pages(3)
    by (auto simp: lower_BLOCK names empty)
  from tool_filter_registration[where c = "clientWithFilter ''deny'' [''delete_file'']"
      and tf = "\<lparr>Mode = ''deny'', ToolList = [''delete_file'']\<rparr>"
      and ToLower = asciiToLower and w = emptyWorld and k = 1 and items = "[toolC]",
      OF o _ _ p0 p1]
  have other: "\<exists>w'. addToolsToServer asciiToLower (clientWithFilter ''deny'' [''delete_file''])
               emptyWorld = Some (None, w', [[]]) \<and>
          asciiToLower ''deny'' = ''deny'' \<and>
          tools (mcpServer w') = [toolA, toolB, toolC] \<and>
          count_list (logs w')
            (Printf ''<%s> Unknown tool filter mode: %s, skipping tool filter''
               [Str ''fetch'', Str ''deny'']) = 1"
    unfolding b n exampleBackend_tool_pages(3)
    by (auto simp: lower_deny names empty)
  from allow block other show ?thesis by blast
qed

section \<open>Paging\<close>

text \<open>
  C4. The claim is that, for each capability family, paging ends at a page without
  entries even when that page carries a next cursor, and otherwise at a page whose next
  cursor is empty. The loop of the registration routines has the guard for the empty
  page (\<open>pagedList_empty\<close>), but it sees what the list call hands over, and the list call
  follows the cursors itself (\<open>ClientList_returns_iff\<close>): only an empty next cursor or a
  failed request ends the paging. On a backend whose first page of tools is empty and
  carries the cursor \<open>more\<close>, and whose second page has one tool, the second page is
  fetched and the tool registered; on a backend whose pages of resources are all empty
  and all carry a cursor, \<open>addResourcesToServer\<close> does not return.
\<close>

theorem empty_page_does_not_end_paging:
  "pageAt (ToolPages (c_client sparseClient)) 0 = Inr ([], ''more'') \<and>
   pageAt (ToolPages (c_client sparseClient)) 1 = Inr ([toolC], []) \<and>
   (\<exists>w'. addToolsToServer asciiToLower sparseClient emptyWorld = Some (None, w', [[]]) \<and>
          tools (mcpServer w') = [toolC]) \<and>
   (\<forall>k. pageAt (ResourcePages (c_client endlessClient)) k = Inr ([], ''ignored'')) \<and>
   addResourcesToServer endlessClient emptyWorld = None"
proof -
  have b: "ToolPages (c_client sparseClient) =
             (\<lambda>n cur. if cur = [] then Inr ([], ''more'') else Inr ([toolC], []))"
    by (simp add: sparseClient_def)
  have p0: "pageAt (ToolPages (c_client sparseClient)) 0 = Inr ([], ''more'')"
    and p1: "pageAt (ToolPages (c_client sparseClient)) 1 = Inr ([toolC], [])"
    and nl: "\<forall>i<1. \<not> lastPage (pageAt (ToolPages (c_client sparseClient)) i)"
    and adv: "advertised (ToolPages (c_client sparseClient)) (Suc 1) = [toolC]"
    unfolding b by (simp_all add: lastPage_def nextOf_def itemsOf_def advertised_def)
  have ff: "fst (fst (newToolFilter asciiToLower sparseClient) (tool_Name toolC))"
    by (simp add: newToolFilter_def sparseClient_def exampleClient_def lower_Allow
        ToolFilterModeAllow_def toolC_def Let_def)
  have tools: "\<exists>w'. addToolsToServer asciiToLower sparseClient emptyWorld = Some (None, w', [[]]) \<and>
          tools (mcpServer w') = [toolC]"
    unfolding addToolsToServer_listed[OF nl p1] adv
    using ff by (simp add: toolsPage_tools emptyWorld_def)
  have r: "pageAt (ResourcePages (c_client endlessClient)) k = Inr ([], ''ignored'')" for k
    by (simp add: endlessClient_def)
  then have "\<forall>k. \<not> lastPage (pageAt (ResourcePages (c_client endlessClient)) k)"
    by (simp add: lastPage_def)
  from ClientList_diverges[OF this]
  have "ListResources (c_client endlessClient) 0 [] = None"
    by (simp add: ListResources_def)
  from pagedList_hangs[where list = "ListResources (c_client endlessClient)" and n = 0
      and c = "[]", OF this]
  have hang: "addResourcesToServer endlessClient emptyWorld = None"
    by (simp add: addResourcesToServer_def)
  from p0 p1 tools r hang show ?thesis by blast
qed

section \<open>Initialization of a backend\<close>

text \<open>
  C5. Whenever \<open>addToMCPServer\<close> returns, it returns an error exactly when the manual
  start (where required), the \<open>Initialize\<close> call or the registration of tools failed; and
  in each of these three cases it does return, with that error. When the three succeed
  and the registrations of prompts, resources and resource templates return, with an
  error or without, \<open>addToMCPServer\<close> returns without error.
\<close>

theorem addToMCPServer_error_iff:
  "(\<forall>res w'. addToMCPServer ToLower c w = Some (res, w') \<longrightarrow>
      ((res \<noteq> None) \<longleftrightarrow>
         (c_needManualStart c \<and> Start (c_client c) \<noteq> None) \<or>
         Initialize (c_client c) \<noteq> None \<or>
         (\<exists>err w2 q2. addToolsToServer ToLower c
             (logPrintf ''<%s> Successfully initialized MCP client'' [Str (c_name c)] w) =
               Some (Some err, w2, q2)))) \<and>
   (c_needManualStart c \<and> Start (c_client c) = Some e1 \<longrightarrow>
      addToMCPServer ToLower c w = Some (Some e1, w)) \<and>
   (\<not> (c_needManualStart c \<and> Start (c_client c) \<noteq> None) \<and>
    Initialize (c_client c) = Some e2 \<longrightarrow>
      addToMCPServer ToLower c w = Some (Some e2, w)) \<and>
   (\<not> (c_needManualStart c \<and> Start (c_client c) \<noteq> None) \<and>
    Initialize (c_client c) = None \<and>
    addToolsToServer ToLower c
      (logPrintf ''<%s> Successfully initialized MCP client'' [Str (c_name c)] w) =
        Some (Some e3, w2, q2) \<longrightarrow>
      addToMCPServer ToLower c w = Some (Some e3, w2)) \<and>
   (\<not> (c_needManualStart c \<and> Start (c_client c) \<noteq> None) \<and>
    Initialize (c_client c) = None \<and>
    addToolsToServer ToLower c
      (logPrintf ''<%s> Successfully initialized MCP client'' [Str (c_name c)] w) =
        Some (None, w2, q2) \<and>
    addPromptsToServer c w2 = Some (r3, w3, q3) \<and>
    addResourcesToServer c w3 = Some (r4, w4, q4) \<and>
    addResourceTemplatesToServer c w4 = Some (r5, w5, q5) \<longrightarrow>
      (\<exists>w'. addToMCPServer ToLower c w = Some (None, w') \<and> mcpServer w' = mcpServer w5))"
proof (intro conjI allI impI)
  fix res w'
  assume "addToMCPServer ToLower c w = Some (res, w')"
  then show "(res \<noteq> None) \<longleftrightarrow>
         (c_needManualStart c \<and> Start (c_client c) \<noteq> None) \<or>
         Initialize (c_client c) \<noteq> None \<or>
         (\<exists>err w2 q2. addToolsToServer ToLower c
             (logPrintf ''<%s> Successfully initialized MCP client'' [Str (c_name c)] w) =
               Some (Some err, w2, q2))"
    unfolding addToMCPServer_def
    by (auto split: option.splits prod.splits if_splits) metis+
next
  assume "c_needManualStart c \<and> Start (c_client c) = Some e1"
  then show "addToMCPServer ToLower c w = Some (Some e1, w)"
    by (simp add: addToMCPServer_def)
next
  assume "\<not> (c_needManualStart c \<and> Start (c_client c) \<noteq> None) \<and>
    Initialize (c_client c) = Some e2"
  then show "addToMCPServer ToLower c w = Some (Some e2, w)"
    by (auto simp: addToMCPServer_def)
next
  assume "\<not> (c_needManualStart c \<and> Start (c_client c) \<noteq> None) \<and>
    Initialize (c_client c) = None \<and>
    addToolsToServer ToLower c
      (logPrintf ''<%s> Successfully initialized MCP client'' [Str (c_name c)] w) =
        Some (Some e3, w2, q2)"
  then show "addToMCPServer ToLower c w = Some (Some e3, w2)"
    by (auto simp: addToMCPServer_def)
next
  assume "\<not> (c_needManualStart c \<and> Start (c_client c) \<noteq> None) \<and>
    Initialize (c_client c) = None \<and>
    addToolsToServer ToLower c
      (logPrintf ''<%s> Successfully initialized MCP client'' [Str (c_name c)] w) =
        Some (None, w2, q2) \<and>
    addPromptsToServer c w2 = Some (r3, w3, q3) \<and>
    addResourcesToServer c w3 = Some (r4, w4, q4) \<and>
    addResourceTemplatesToServer c w4 = Some (r5, w5, q5)"
  then show "\<exists>w'. addToMCPServer ToLower c w = Some (None, w') \<and> mcpServer w' = mcpServer w5"
    unfolding addToMCPServer_def
    by (auto split: option.splits prod.splits if_splits)
qed

theorem addToMCPServer_error_iff_witness:
  "addToMCPServer asciiToLower unreachableClient emptyWorld =
     Some (Some ''connection refused'', emptyWorld) \<and>
   (\<exists>w2 q2 w3 q3.
      addToolsToServer asciiToLower promptlessClient
        (logPrintf ''<%s> Successfully initialized MCP client'' [Str ''fetch''] emptyWorld) =
        Some (None, w2, q2) \<and>
      addPromptsToServer promptlessClient w2 = Some (Some ''Method not found'', w3, q3)) \<and>
   (\<exists>w'. addToMCPServer asciiToLower promptlessClient emptyWorld = Some (None, w'))"
proof -
  let ?w1 = "logPrintf ''<%s> Successfully initialized MCP client'' [Str (c_name promptlessClient)] emptyWorld"
  have n: "c_name promptlessClient = ''fetch''"
    by (simp add: promptlessClient_def exampleClient_def)
  have tp: "ToolPages (c_client promptlessClient) = ToolPages exampleBackend"
    by (simp add: promptlessClient_def)
  have "\<exists>w2. addToolsToServer asciiToLower promptlessClient ?w1 = Some (None, w2, [[]])"
    using addToolsToServer_listed[of 1 promptlessClient "[toolC]" asciiToLower ?w1]
      exampleBackend_tool_pages(1,2)
    unfolding tp by auto
  then obtain w2 where
    t: "addToolsToServer asciiToLower promptlessClient ?w1 = Some (None, w2, [[]])"
    by blast
  have p: "addPromptsToServer promptlessClient w2 = Some (Some ''Method not found'', w2, [[]])"
    unfolding addPromptsToServer_def ListPrompts_def ClientList_def
    apply (subst pagedList.simps)
    apply (subst followCursors.simps)
    apply (simp add: promptlessClient_def exampleClient_def)
    done
  have r: "addResourcesToServer promptlessClient w2 = Some (None, w2, [[]])"
    unfolding addResourcesToServer_def ListResources_def ClientList_def
    apply (subst pagedList.simps)
    apply (subst followCursors.simps)
    apply (simp add: promptlessClient_def exampleClient_def exampleBackend_def)
    done
  have rt: "addResourceTemplatesToServer promptlessClient w2 = Some (None, w2, [[]])"
    unfolding addResourceTemplatesToServer_def ListResourceTemplates_def ClientList_def
    apply (subst pagedList.simps)
    apply (subst followCursors.simps)
    apply (simp add: promptlessClient_def exampleClient_def exampleBackend_def)
    done
  have s: "\<not> (c_needManualStart promptlessClient \<and> Start (c_client promptlessClient) \<noteq> None)"
    and i: "Initialize (c_client promptlessClient) = None"
    by (simp_all add: promptlessClient_def exampleClient_def exampleBackend_def)
  from addToMCPServer_error_iff[of asciiToLower promptlessClient emptyWorld _ _ _ w2
      "[[]]" "Some ''Method not found''" w2 "[[]]" None w2 "[[]]" None w2 "[[]]"]
    s i t p r rt
  have ok: "\<exists>w'. addToMCPServer asciiToLower promptlessClient emptyWorld = Some (None, w')"
    by blast
  have su: "\<not> (c_needManualStart unreachableClient \<and> Start (c_client unreachableClient) \<noteq> None)"
    and iu: "Initialize (c_client unreachableClient) = Some ''connection refused''"
    by (simp_all add: unreachableClient_def exampleClient_def exampleBackend_def)
  from addToMCPServer_error_iff[of asciiToLower unreachableClient emptyWorld _ "''connection refused''"]
    su iu
  have bad: "addToMCPServer asciiToLower unreachableClient emptyWorld =
     Some (Some ''connection refused'', emptyWorld)"
    by blast
  from t p ok bad show ?thesis unfolding n by blast
qed

end
